theory Spec2Isabelle
  imports Complex_Main "HOL-Library.Sublist"
begin

section \<open>JavaScript numbers\<close>

text \<open>
  The indicator kernel of \<^verbatim>\<open>agent.js\<close> computes on JavaScript numbers. The
  properties verified below turn on the special values of that type (division by zero,
  \<^verbatim>\<open>Infinity - Infinity\<close>, arithmetic and comparison with \<^verbatim>\<open>NaN\<close>), so
  the type is modelled with them: a finite value, the two infinities, and \<^verbatim>\<open>NaN\<close>.
  Finite arithmetic is exact (rounding and overflow of binary64 are not modelled) and
  zero is unsigned; a result that is infinite or \<^verbatim>\<open>NaN\<close> here arises by the rules
  IEEE 754 gives for the special values.
\<close>

datatype jsnum = Fin real | PInf | NInf | NaN

fun js_neg :: "jsnum \<Rightarrow> jsnum" where
  "js_neg (Fin a) = Fin (- a)"
| "js_neg PInf = NInf"
| "js_neg NInf = PInf"
| "js_neg NaN = NaN"

fun js_add :: "jsnum \<Rightarrow> jsnum \<Rightarrow> jsnum" where
  "js_add (Fin a) (Fin b) = Fin (a + b)"
| "js_add (Fin a) PInf = PInf"
| "js_add (Fin a) NInf = NInf"
| "js_add PInf (Fin b) = PInf"
| "js_add PInf PInf = PInf"
| "js_add PInf NInf = NaN"
| "js_add NInf (Fin b) = NInf"
| "js_add NInf NInf = NInf"
| "js_add NInf PInf = NaN"
| "js_add NaN y = NaN"
| "js_add x NaN = NaN"

definition js_sub :: "jsnum \<Rightarrow> jsnum \<Rightarrow> jsnum" where
  "js_sub x y = js_add x (js_neg y)"

fun js_mul :: "jsnum \<Rightarrow> jsnum \<Rightarrow> jsnum" where
  "js_mul (Fin a) (Fin b) = Fin (a * b)"
| "js_mul (Fin a) PInf = (if a = 0 then NaN else if 0 < a then PInf else NInf)"
| "js_mul (Fin a) NInf = (if a = 0 then NaN else if 0 < a then NInf else PInf)"
| "js_mul PInf (Fin b) = (if b = 0 then NaN else if 0 < b then PInf else NInf)"
| "js_mul NInf (Fin b) = (if b = 0 then NaN else if 0 < b then NInf else PInf)"
| "js_mul PInf PInf = PInf"
| "js_mul PInf NInf = NInf"
| "js_mul NInf PInf = NInf"
| "js_mul NInf NInf = PInf"
| "js_mul NaN y = NaN"
| "js_mul x NaN = NaN"

fun js_div :: "jsnum \<Rightarrow> jsnum \<Rightarrow> jsnum" where
  "js_div (Fin a) (Fin b) =
     (if b = 0 then (if a = 0 then NaN else if 0 < a then PInf else NInf)
      else Fin (a / b))"
| "js_div (Fin a) PInf = Fin 0"
| "js_div (Fin a) NInf = Fin 0"
| "js_div PInf (Fin b) = (if 0 \<le> b then PInf else NInf)"
| "js_div NInf (Fin b) = (if 0 \<le> b then NInf else PInf)"
| "js_div PInf PInf = NaN"
| "js_div PInf NInf = NaN"
| "js_div NInf PInf = NaN"
| "js_div NInf NInf = NaN"
| "js_div NaN y = NaN"
| "js_div x NaN = NaN"

fun js_lt :: "jsnum \<Rightarrow> jsnum \<Rightarrow> bool" where
  "js_lt (Fin a) (Fin b) = (a < b)"
| "js_lt (Fin a) PInf = True"
| "js_lt NInf (Fin b) = True"
| "js_lt NInf PInf = True"
| "js_lt x y = False"

definition js_gt :: "jsnum \<Rightarrow> jsnum \<Rightarrow> bool" where
  "js_gt x y = js_lt y x"

definition js_ge :: "jsnum \<Rightarrow> jsnum \<Rightarrow> bool" where
  "js_ge x y = (x \<noteq> NaN \<and> y \<noteq> NaN \<and> \<not> js_lt x y)"

fun is_finite :: "jsnum \<Rightarrow> bool" where
  "is_finite (Fin a) = True"
| "is_finite x = False"

text \<open>A number above zero: a positive finite value or the positive infinity.\<close>

fun pos :: "jsnum \<Rightarrow> bool" where
  "pos (Fin a) = (0 < a)"
| "pos PInf = True"
| "pos x = False"

text \<open>
  Reading an array at an index: \<^verbatim>\<open>prices[i]\<close> is \<^verbatim>\<open>undefined\<close> (here
  \<open>None\<close>) when \<open>i\<close> is negative or not below the length, and \<^verbatim>\<open>undefined\<close>
  becomes \<^verbatim>\<open>NaN\<close> when an arithmetic operator or a comparison converts it to a number.
\<close>

definition elem_at :: "jsnum list \<Rightarrow> int \<Rightarrow> jsnum option" where
  "elem_at xs i = (if 0 \<le> i \<and> i < int (length xs) then Some (xs ! nat i) else None)"

fun to_num :: "jsnum option \<Rightarrow> jsnum" where
  "to_num None = NaN"
| "to_num (Some x) = x"

section \<open>Indicator kernel\<close>

subsection \<open>calculateRSI\<close>

text \<open>
  \<^verbatim>\<open>
  const calculateRSI = (prices, period) => {
    let gains = 0;
    let losses = 0;
    for (let i = prices.length - period; i < prices.length; i++) {
      const difference = prices[i] - prices[i - 1];
      if (difference >= 0) gains += difference;
      else losses -= difference;
    }
    const avgGain = gains / period;
    const avgLoss = losses / period;
    const rs = avgGain / avgLoss;
    return 100 - 100 / (1 + rs);
  };
  \<close>
\<close>

function rsi_loop :: "jsnum list \<Rightarrow> int \<Rightarrow> jsnum \<Rightarrow> jsnum \<Rightarrow> jsnum \<times> jsnum" where
  "rsi_loop prices i gains losses =
     (if i < int (length prices) then
        (let difference = js_sub (to_num (elem_at prices i)) (to_num (elem_at prices (i - 1)))
         in if js_ge difference (Fin 0)
            then rsi_loop prices (i + 1) (js_add gains difference) losses
            else rsi_loop prices (i + 1) gains (js_sub losses difference))
      else (gains, losses))"
  by pat_completeness auto
termination
  by (relation "measure (\<lambda>(prices, i, gains, losses). nat (int (length prices) - i))") auto

declare rsi_loop.simps [simp del]

definition calculateRSI :: "jsnum list \<Rightarrow> nat \<Rightarrow> jsnum" where
  "calculateRSI prices period =
     (let (gains, losses) = rsi_loop prices (int (length prices) - int period) (Fin 0) (Fin 0);
          avgGain = js_div gains (Fin (real period));
          avgLoss = js_div losses (Fin (real period));
          rs = js_div avgGain avgLoss
      in js_sub (Fin 100) (js_div (Fin 100) (js_add (Fin 1) rs)))"

subsection \<open>calculateEMA and calculateMACD\<close>

text \<open>
  \<^verbatim>\<open>
  const calculateEMA = (prices, period) => {
    const multiplier = 2 / (period + 1);
    let ema = prices[0];
    for (let i = 1; i < prices.length; i++) {
      ema = (prices[i] - ema) * multiplier + ema;
    }
    return ema;
  };
  \<close>
  On the empty sequence \<^verbatim>\<open>prices[0]\<close> is \<^verbatim>\<open>undefined\<close> and is returned as it is.
\<close>

function ema_loop :: "jsnum list \<Rightarrow> jsnum \<Rightarrow> nat \<Rightarrow> jsnum option \<Rightarrow> jsnum option" where
  "ema_loop prices multiplier i ema =
     (if i < length prices then
        ema_loop prices multiplier (i + 1)
          (Some (js_add (js_mul (js_sub (to_num (elem_at prices (int i))) (to_num ema)) multiplier)
                        (to_num ema)))
      else ema)"
  by pat_completeness auto
termination
  by (relation "measure (\<lambda>(prices, multiplier, i, ema). length prices - i)") auto

declare ema_loop.simps [simp del]

text \<open>One step of the recurrence, as the loop body writes it.\<close>

definition ema_step :: "jsnum \<Rightarrow> jsnum \<Rightarrow> jsnum \<Rightarrow> jsnum" where
  "ema_step multiplier ema p = js_add (js_mul (js_sub p ema) multiplier) ema"

definition calculateEMA :: "jsnum list \<Rightarrow> jsnum \<Rightarrow> jsnum option" where
  "calculateEMA prices period =
     (let multiplier = js_div (Fin 2) (js_add period (Fin 1))
      in ema_loop prices multiplier 1 (elem_at prices 0))"

record macd =
  macdLine :: jsnum
  signalLine :: "jsnum option"
  histogram :: jsnum

text \<open>
  \<^verbatim>\<open>
  const calculateMACD = (prices) => {
    const ema12 = calculateEMA(prices, 12);
    const ema26 = calculateEMA(prices, 26);
    const macdLine = ema12 - ema26;
    const signalLine = calculateEMA([macdLine], 9);
    const histogram = macdLine - signalLine;
    return { macdLine, signalLine, histogram };
  };
  \<close>
\<close>

definition calculateMACD :: "jsnum list \<Rightarrow> macd" where
  "calculateMACD prices =
     (let ema12 = calculateEMA prices (Fin 12);
          ema26 = calculateEMA prices (Fin 26);
          macdLine = js_sub (to_num ema12) (to_num ema26);
          signalLine = calculateEMA [macdLine] (Fin 9);
          histogram = js_sub macdLine (to_num signalLine)
      in \<lparr> macdLine = macdLine, signalLine = signalLine, histogram = histogram \<rparr>)"

subsection \<open>determineTrend\<close>

text \<open>\<^verbatim>\<open>Array.prototype.join\<close> on an array of strings.\<close>

fun join :: "string \<Rightarrow> string list \<Rightarrow> string" where
  "join sep [] = []"
| "join sep [x] = x"
| "join sep (x # y # ys) = x @ sep @ join sep (y # ys)"

text \<open>
  \<^verbatim>\<open>
  const determineTrend = (sma, rsi, macd) => {
    let signals = [];
    if (rsi > 70) signals.push("Overbought");
    else if (rsi < 30) signals.push("Oversold");
    if (macd.macdLine > macd.signalLine) signals.push("Bullish MACD Crossover");
    else if (macd.macdLine < macd.signalLine)
      signals.push("Bearish MACD Crossover");
    return signals.join(", ") || "Neutral";
  };
  \<close>
  The empty string is the only falsy string, so \<^verbatim>\<open>||\<close> replaces exactly the empty join.
\<close>

definition determineTrend :: "jsnum \<Rightarrow> jsnum \<Rightarrow> macd \<Rightarrow> string" where
  "determineTrend sma rsi m =
     (let signals0 = [];
          signals1 =
            (if js_gt rsi (Fin 70) then signals0 @ [''Overbought'']
             else if js_lt rsi (Fin 30) then signals0 @ [''Oversold'']
             else signals0);
          signals2 =
            (if js_gt (macdLine m) (to_num (signalLine m))
             then signals1 @ [''Bullish MACD Crossover'']
             else if js_lt (macdLine m) (to_num (signalLine m))
             then signals1 @ [''Bearish MACD Crossover'']
             else signals1);
          joined = join '', '' signals2
      in if joined = [] then ''Neutral'' else joined)"

text \<open>
  The rule table as the specification words it, for comparison with the code: one label
  from the RSI (above 70 \<^verbatim>\<open>Overbought\<close>, otherwise below 30 \<^verbatim>\<open>Oversold\<close>), one
  from the MACD (line above signal \<^verbatim>\<open>Bullish MACD Crossover\<close>, otherwise line below
  signal \<^verbatim>\<open>Bearish MACD Crossover\<close>), the labels that fired joined by a comma and a
  space, and \<^verbatim>\<open>Neutral\<close> when none fired. It has no argument for the moving average.
\<close>

definition spec_rsi_label :: "jsnum \<Rightarrow> string option" where
  "spec_rsi_label rsi =
     (if js_gt rsi (Fin 70) then Some ''Overbought''
      else if js_lt rsi (Fin 30) then Some ''Oversold''
      else None)"

definition spec_macd_label :: "macd \<Rightarrow> string option" where
  "spec_macd_label m =
     (if js_gt (macdLine m) (to_num (signalLine m)) then Some ''Bullish MACD Crossover''
      else if js_lt (macdLine m) (to_num (signalLine m)) then Some ''Bearish MACD Crossover''
      else None)"

definition spec_TrendSignal :: "jsnum \<Rightarrow> macd \<Rightarrow> string" where
  "spec_TrendSignal rsi m =
     (case (spec_rsi_label rsi, spec_macd_label m) of
        (None, None) \<Rightarrow> ''Neutral''
      | (Some a, None) \<Rightarrow> a
      | (None, Some b) \<Rightarrow> b
      | (Some a, Some b) \<Rightarrow> a @ '', '' @ b)"

section \<open>JavaScript values\<close>

text \<open>
  The values that cross the boundary of the engine and of the capabilities: the
  primitives, an error object with its \<^verbatim>\<open>name\<close>, \<^verbatim>\<open>message\<close> and optional
  \<^verbatim>\<open>cause\<close>, an entry of the capability registry (named by its key), and an object of
  the host (named by the global that holds it) of which no property is modelled.
\<close>

datatype jsval =
    JUndefined
  | JNull
  | JBool bool
  | JNum jsnum
  | JStr string
  | JError string string "jsval option"
  | JCap string
  | JObj string

text \<open>Truthiness, as \<^verbatim>\<open>||\<close> and \<^verbatim>\<open>? :\<close> test it.\<close>

fun truthy :: "jsval \<Rightarrow> bool" where
  "truthy JUndefined = False"
| "truthy JNull = False"
| "truthy (JBool b) = b"
| "truthy (JNum n) = (n \<noteq> Fin 0 \<and> n \<noteq> NaN)"
| "truthy (JStr s) = (s \<noteq> [])"
| "truthy v = True"

section \<open>Named windows\<close>

text \<open>
  \<^verbatim>\<open>
  const TIME_PERIODS = {
    "1d": 24 * 60 * 60 * 1000,
    "7d": 7 * 24 * 60 * 60 * 1000,
    "30d": 30 * 24 * 60 * 60 * 1000,
    "1y": 365 * 24 * 60 * 60 * 1000,
  };
  \<close>
  The own properties of the object literal, in the order written; the same literal is
  written a second time as the entry \<^verbatim>\<open>TIME_PERIODS\<close> of the registry.
\<close>

definition TIME_PERIODS :: "(string \<times> int) list" where
  "TIME_PERIODS =
     [(''1d'', 24 * 60 * 60 * 1000),
      (''7d'', 7 * 24 * 60 * 60 * 1000),
      (''30d'', 30 * 24 * 60 * 60 * 1000),
      (''1y'', 365 * 24 * 60 * 60 * 1000)]"

definition context_TIME_PERIODS :: "(string \<times> int) list" where
  "context_TIME_PERIODS =
     [(''1d'', 24 * 60 * 60 * 1000),
      (''7d'', 7 * 24 * 60 * 60 * 1000),
      (''30d'', 30 * 24 * 60 * 60 * 1000),
      (''1y'', 365 * 24 * 60 * 60 * 1000)]"

text \<open>
  An object literal inherits from \<^verbatim>\<open>Object.prototype\<close>, and a read
  \<^verbatim>\<open>TIME_PERIODS[period]\<close> walks that chain: it gives the own property of the
  name, otherwise the member of \<^verbatim>\<open>Object.prototype\<close> of the name, otherwise
  \<^verbatim>\<open>undefined\<close>. The members below are the ones ECMAScript defines (with its
  annex for web browsers, which Node.js follows too); the file adds none.
\<close>

definition Object_prototype_keys :: "string list" where
  "Object_prototype_keys =
     [''constructor'', ''hasOwnProperty'', ''isPrototypeOf'', ''propertyIsEnumerable'',
      ''toLocaleString'', ''toString'', ''valueOf'', ''__proto__'', ''__defineGetter__'',
      ''__defineSetter__'', ''__lookupGetter__'', ''__lookupSetter__'']"

datatype property_read = OwnValue int | InheritedMember string | NotDefined

definition get_property :: "(string \<times> int) list \<Rightarrow> string \<Rightarrow> property_read" where
  "get_property obj k =
     (case map_of obj k of
        Some d \<Rightarrow> OwnValue d
      | None \<Rightarrow> if k \<in> set Object_prototype_keys then InheritedMember k else NotDefined)"

text \<open>
  The read as the operand of a subtraction. \<^verbatim>\<open>undefined\<close> converts to
  \<^verbatim>\<open>NaN\<close>. Every member of \<^verbatim>\<open>Object.prototype\<close> is a function or a plain
  object; its primitive value is the text that \<^verbatim>\<open>toString\<close> gives for it, which is
  not a numeral, so it converts to \<^verbatim>\<open>NaN\<close> as well.
\<close>

fun read_number :: "property_read \<Rightarrow> jsnum" where
  "read_number (OwnValue d) = Fin (real_of_int d)"
| "read_number (InheritedMember k) = NaN"
| "read_number NotDefined = NaN"

text \<open>
  \<^verbatim>\<open>const from = now - TIME_PERIODS[period];\<close> in \<^verbatim>\<open>priceHistoryData\<close>,
  \<^verbatim>\<open>getPriceHistory\<close> and \<^verbatim>\<open>getHistoricPortfolioData\<close>. Nothing is raised
  for a name that is not a window.
\<close>

definition window_from :: "(string \<times> int) list \<Rightarrow> int \<Rightarrow> string \<Rightarrow> jsnum" where
  "window_from table now period =
     js_sub (Fin (real_of_int now)) (read_number (get_property table period))"

section \<open>Token-name resolution\<close>

text \<open>
  \<^verbatim>\<open>String.prototype.toLowerCase\<close> on the letters A to Z; other characters are left as
  they are.
\<close>

definition lower_char :: "char \<Rightarrow> char" where
  "lower_char c =
     (case map_of (zip ''ABCDEFGHIJKLMNOPQRSTUVWXYZ'' ''abcdefghijklmnopqrstuvwxyz'') c of
        Some d \<Rightarrow> d
      | None \<Rightarrow> c)"

definition toLowerCase :: "string \<Rightarrow> string" where
  "toLowerCase s = map lower_char s"

record coin =
  coin_name :: string
  coin_symbol :: string

text \<open>
  \<^verbatim>\<open>
  const getTokenName = (input) => {
    const lowercaseInput = input.toLowerCase();
    const matchedCoin = coins.find(
      (coin) =>
        coin.name.toLowerCase() === lowercaseInput ||
        coin.symbol.toLowerCase() === lowercaseInput
    );
    return matchedCoin ? matchedCoin.name.toLowerCase() : lowercaseInput;
  };
  \<close>
  The module reads its table from \<^verbatim>\<open>coins.json\<close>, which is taken as the parameter
  \<open>coins\<close>; the registry's own \<^verbatim>\<open>getTokenName\<close> is the same function over the
  eight coins written in \<^verbatim>\<open>executeCode\<close>.
\<close>

definition getTokenName :: "coin list \<Rightarrow> string \<Rightarrow> string" where
  "getTokenName coins input =
     (let lowercaseInput = toLowerCase input;
          matchedCoin = List.find
            (\<lambda>coin. toLowerCase (coin_name coin) = lowercaseInput \<or>
                    toLowerCase (coin_symbol coin) = lowercaseInput) coins
      in case matchedCoin of
           Some c \<Rightarrow> toLowerCase (coin_name c)
         | None \<Rightarrow> lowercaseInput)"

definition context_coins :: "coin list" where
  "context_coins =
     [\<lparr> coin_name = ''bitcoin'', coin_symbol = ''btc'' \<rparr>,
      \<lparr> coin_name = ''ethereum'', coin_symbol = ''eth'' \<rparr>,
      \<lparr> coin_name = ''aptos'', coin_symbol = ''apt'' \<rparr>,
      \<lparr> coin_name = ''binance coin'', coin_symbol = ''bnb'' \<rparr>,
      \<lparr> coin_name = ''cardano'', coin_symbol = ''ada'' \<rparr>,
      \<lparr> coin_name = ''solana'', coin_symbol = ''sol'' \<rparr>,
      \<lparr> coin_name = ''ripple'', coin_symbol = ''xrp'' \<rparr>,
      \<lparr> coin_name = ''polkadot'', coin_symbol = ''dot'' \<rparr>]"

section \<open>Formatting capabilities\<close>

text \<open>
  \<^verbatim>\<open>fetchMarketData\<close> returns \<^verbatim>\<open>response.data?.data\<close>: an object of fields, or
  nothing (\<open>None\<close>, for \<^verbatim>\<open>undefined\<close> and \<^verbatim>\<open>null\<close>, which every use below
  treats alike), or it throws when the request fails. The provider and the host's
  \<^verbatim>\<open>Number.prototype.toFixed\<close> at two digits are parameters of the model.
\<close>

type_synonym market_data = "string \<rightharpoonup> jsval"

record provider =
  coins_json :: "coin list"
  fetchMarketData :: "string \<Rightarrow> jsval + market_data option"
  toFixed2 :: "jsnum \<Rightarrow> string"

definition and_then :: "jsval + 'a \<Rightarrow> ('a \<Rightarrow> jsval + 'b) \<Rightarrow> jsval + 'b" where
  "and_then r k = (case r of Inl e \<Rightarrow> Inl e | Inr v \<Rightarrow> k v)"

definition type_error :: "string \<Rightarrow> jsval" where
  "type_error m = JError ''TypeError'' m None"

text \<open>\<^verbatim>\<open>data?.f\<close>: \<^verbatim>\<open>undefined\<close> when there is no object or no such field.\<close>

definition opt_prop :: "market_data option \<Rightarrow> string \<Rightarrow> jsval" where
  "opt_prop data f =
     (case data of
        None \<Rightarrow> JUndefined
      | Some d \<Rightarrow> (case d f of None \<Rightarrow> JUndefined | Some v \<Rightarrow> v))"

text \<open>\<^verbatim>\<open>data.f\<close>: a \<^verbatim>\<open>TypeError\<close> when there is no object.\<close>

definition get_prop :: "market_data option \<Rightarrow> string \<Rightarrow> jsval + jsval" where
  "get_prop data f =
     (case data of
        None \<Rightarrow> Inl (type_error (''Cannot read properties of undefined (reading '' @ f @ '')''))
      | Some d \<Rightarrow> Inr (case d f of None \<Rightarrow> JUndefined | Some v \<Rightarrow> v))"

text \<open>
  \<^verbatim>\<open>v.toFixed(2)\<close>: defined on numbers; \<^verbatim>\<open>undefined\<close> and \<^verbatim>\<open>null\<close> have no
  properties and any other value has no method of that name.
\<close>

definition call_toFixed :: "(jsnum \<Rightarrow> string) \<Rightarrow> jsval \<Rightarrow> jsval + string" where
  "call_toFixed fx v =
     (case v of
        JNum n \<Rightarrow> Inr (fx n)
      | JUndefined \<Rightarrow> Inl (type_error ''Cannot read properties of undefined (reading toFixed)'')
      | JNull \<Rightarrow> Inl (type_error ''Cannot read properties of null (reading toFixed)'')
      | _ \<Rightarrow> Inl (type_error ''toFixed is not a function''))"

text \<open>\<^verbatim>\<open>v?.toFixed(2)\<close>: \<^verbatim>\<open>undefined\<close> (here \<open>None\<close>) on \<^verbatim>\<open>undefined\<close> and \<^verbatim>\<open>null\<close>.\<close>

definition opt_toFixed :: "(jsnum \<Rightarrow> string) \<Rightarrow> jsval \<Rightarrow> jsval + string option" where
  "opt_toFixed fx v =
     (case v of
        JUndefined \<Rightarrow> Inr None
      | JNull \<Rightarrow> Inr None
      | _ \<Rightarrow> and_then (call_toFixed fx v) (\<lambda>s. Inr (Some s)))"

text \<open>\<^verbatim>\<open>x || "N/A"\<close> for \<open>x\<close> a string or \<^verbatim>\<open>undefined\<close>.\<close>

fun or_NA :: "string option \<Rightarrow> string" where
  "or_NA None = ''N/A''"
| "or_NA (Some s) = (if s = [] then ''N/A'' else s)"

text \<open>
  The five shapes in which the file writes a formatter.
  \<^verbatim>\<open>data?.f !== undefined ? `$${data.f.toFixed(2)}` : "N/A"\<close>
\<close>

definition defined_currency :: "(jsnum \<Rightarrow> string) \<Rightarrow> market_data option \<Rightarrow> string \<Rightarrow> jsval + string" where
  "defined_currency fx data f =
     (if opt_prop data f \<noteq> JUndefined
      then and_then (get_prop data f) (\<lambda>v. and_then (call_toFixed fx v) (\<lambda>s. Inr (''$'' @ s)))
      else Inr ''N/A'')"

text \<open>\<^verbatim>\<open>`$${data?.f?.toFixed(2) || "N/A"}`\<close>\<close>

definition template_currency :: "(jsnum \<Rightarrow> string) \<Rightarrow> market_data option \<Rightarrow> string \<Rightarrow> jsval + string" where
  "template_currency fx data f =
     and_then (opt_toFixed fx (opt_prop data f)) (\<lambda>x. Inr (''$'' @ or_NA x))"

text \<open>\<^verbatim>\<open>`${data?.f?.toFixed(2) || "N/A"}%`\<close>\<close>

definition template_percent :: "(jsnum \<Rightarrow> string) \<Rightarrow> market_data option \<Rightarrow> string \<Rightarrow> jsval + string" where
  "template_percent fx data f =
     and_then (opt_toFixed fx (opt_prop data f)) (\<lambda>x. Inr (or_NA x @ ''%''))"

text \<open>\<^verbatim>\<open>data?.f ? `$${data.f.toFixed(2)}` : "N/A"\<close>\<close>

definition truthy_currency :: "(jsnum \<Rightarrow> string) \<Rightarrow> market_data option \<Rightarrow> string \<Rightarrow> jsval + string" where
  "truthy_currency fx data f =
     (if truthy (opt_prop data f)
      then and_then (get_prop data f) (\<lambda>v. and_then (call_toFixed fx v) (\<lambda>s. Inr (''$'' @ s)))
      else Inr ''N/A'')"

text \<open>\<^verbatim>\<open>data?.f ? `${data.f.toFixed(2)}%` : "N/A"\<close>\<close>

definition truthy_percent :: "(jsnum \<Rightarrow> string) \<Rightarrow> market_data option \<Rightarrow> string \<Rightarrow> jsval + string" where
  "truthy_percent fx data f =
     (if truthy (opt_prop data f)
      then and_then (get_prop data f) (\<lambda>v. and_then (call_toFixed fx v) (\<lambda>s. Inr (s @ ''%'')))
      else Inr ''N/A'')"

text \<open>
  Every formatter starts the same way:
  \<^verbatim>\<open>
  const normalizedToken = getTokenName(token);
  const data = await fetchMarketData(normalizedToken);
  \<close>
\<close>

definition market_data_of :: "coin list \<Rightarrow> provider \<Rightarrow> string \<Rightarrow> jsval + market_data option" where
  "market_data_of coins pr token =
     (let normalizedToken = getTokenName coins token
      in fetchMarketData pr normalizedToken)"

text \<open>A provider that answers every request with an object that holds no field.\<close>

definition provider_without_fields :: provider where
  "provider_without_fields =
     \<lparr> coins_json = context_coins,
       fetchMarketData = (\<lambda>asset. Inr (Some Map.empty)),
       toFixed2 = (\<lambda>n. []) \<rparr>"

subsection \<open>The formatters declared at module level\<close>

definition price :: "provider \<Rightarrow> string \<Rightarrow> jsval + string" where
  "price pr token = and_then (market_data_of (coins_json pr) pr token)
     (\<lambda>data. defined_currency (toFixed2 pr) data ''price'')"

definition volume :: "provider \<Rightarrow> string \<Rightarrow> jsval + string" where
  "volume pr token = and_then (market_data_of (coins_json pr) pr token)
     (\<lambda>data. defined_currency (toFixed2 pr) data ''volume'')"

definition marketCap :: "provider \<Rightarrow> string \<Rightarrow> jsval + string" where
  "marketCap pr token = and_then (market_data_of (coins_json pr) pr token)
     (\<lambda>data. defined_currency (toFixed2 pr) data ''market_cap'')"

definition marketCapDiluted :: "provider \<Rightarrow> string \<Rightarrow> jsval + string" where
  "marketCapDiluted pr token = and_then (market_data_of (coins_json pr) pr token)
     (\<lambda>data. template_currency (toFixed2 pr) data ''market_cap_diluted'')"

definition liquidity :: "provider \<Rightarrow> string \<Rightarrow> jsval + string" where
  "liquidity pr token = and_then (market_data_of (coins_json pr) pr token)
     (\<lambda>data. template_currency (toFixed2 pr) data ''liquidity'')"

definition liquidityChange24h :: "provider \<Rightarrow> string \<Rightarrow> jsval + string" where
  "liquidityChange24h pr token = and_then (market_data_of (coins_json pr) pr token)
     (\<lambda>data. truthy_percent (toFixed2 pr) data ''liquidity_change_24h'')"

definition offChainVolume :: "provider \<Rightarrow> string \<Rightarrow> jsval + string" where
  "offChainVolume pr token = and_then (market_data_of (coins_json pr) pr token)
     (\<lambda>data. template_currency (toFixed2 pr) data ''off_chain_volume'')"

definition volume7d :: "provider \<Rightarrow> string \<Rightarrow> jsval + string" where
  "volume7d pr token = and_then (market_data_of (coins_json pr) pr token)
     (\<lambda>data. template_currency (toFixed2 pr) data ''volume_7d'')"

definition volumeChange24h :: "provider \<Rightarrow> string \<Rightarrow> jsval + string" where
  "volumeChange24h pr token = and_then (market_data_of (coins_json pr) pr token)
     (\<lambda>data. template_percent (toFixed2 pr) data ''volume_change_24h'')"

definition priceChange24h :: "provider \<Rightarrow> string \<Rightarrow> jsval + string" where
  "priceChange24h pr token = and_then (market_data_of (coins_json pr) pr token)
     (\<lambda>data. template_percent (toFixed2 pr) data ''price_change_24h'')"

definition priceChange1h :: "provider \<Rightarrow> string \<Rightarrow> jsval + string" where
  "priceChange1h pr token = and_then (market_data_of (coins_json pr) pr token)
     (\<lambda>data. template_percent (toFixed2 pr) data ''price_change_1h'')"

definition priceChange7d :: "provider \<Rightarrow> string \<Rightarrow> jsval + string" where
  "priceChange7d pr token = and_then (market_data_of (coins_json pr) pr token)
     (\<lambda>data. template_percent (toFixed2 pr) data ''price_change_7d'')"

definition priceChange1m :: "provider \<Rightarrow> string \<Rightarrow> jsval + string" where
  "priceChange1m pr token = and_then (market_data_of (coins_json pr) pr token)
     (\<lambda>data. template_percent (toFixed2 pr) data ''price_change_1m'')"

definition priceChange30d :: "provider \<Rightarrow> string \<Rightarrow> jsval + string" where
  "priceChange30d pr token = and_then (market_data_of (coins_json pr) pr token)
     (\<lambda>data. template_percent (toFixed2 pr) data ''price_change_1m'')"

definition priceChange1y :: "provider \<Rightarrow> string \<Rightarrow> jsval + string" where
  "priceChange1y pr token = and_then (market_data_of (coins_json pr) pr token)
     (\<lambda>data. template_percent (toFixed2 pr) data ''price_change_1y'')"

definition ath :: "provider \<Rightarrow> string \<Rightarrow> jsval + string" where
  "ath pr token = and_then (market_data_of (coins_json pr) pr token)
     (\<lambda>data. template_currency (toFixed2 pr) data ''ath'')"

definition atl :: "provider \<Rightarrow> string \<Rightarrow> jsval + string" where
  "atl pr token = and_then (market_data_of (coins_json pr) pr token)
     (\<lambda>data. template_currency (toFixed2 pr) data ''atl'')"

subsection \<open>The formatters written in the registry of executeCode\<close>

text \<open>
  The registry does not reuse the module's formatters: \<^verbatim>\<open>executeCode\<close> writes each
  one again inside \<^verbatim>\<open>context\<close>, over \<^verbatim>\<open>context.getTokenName\<close>, and there all of
  them test the field for truthiness.
\<close>

definition context_price :: "provider \<Rightarrow> string \<Rightarrow> jsval + string" where
  "context_price pr token = and_then (market_data_of context_coins pr token)
     (\<lambda>data. truthy_currency (toFixed2 pr) data ''price'')"

definition context_volume :: "provider \<Rightarrow> string \<Rightarrow> jsval + string" where
  "context_volume pr token = and_then (market_data_of context_coins pr token)
     (\<lambda>data. truthy_currency (toFixed2 pr) data ''volume'')"

definition context_marketCap :: "provider \<Rightarrow> string \<Rightarrow> jsval + string" where
  "context_marketCap pr token = and_then (market_data_of context_coins pr token)
     (\<lambda>data. truthy_currency (toFixed2 pr) data ''market_cap'')"

definition context_marketCapDiluted :: "provider \<Rightarrow> string \<Rightarrow> jsval + string" where
  "context_marketCapDiluted pr token = and_then (market_data_of context_coins pr token)
     (\<lambda>data. truthy_currency (toFixed2 pr) data ''market_cap_diluted'')"

definition context_liquidity :: "provider \<Rightarrow> string \<Rightarrow> jsval + string" where
  "context_liquidity pr token = and_then (market_data_of context_coins pr token)
     (\<lambda>data. truthy_currency (toFixed2 pr) data ''liquidity'')"

definition context_priceChange24h :: "provider \<Rightarrow> string \<Rightarrow> jsval + string" where
  "context_priceChange24h pr token = and_then (market_data_of context_coins pr token)
     (\<lambda>data. truthy_percent (toFixed2 pr) data ''price_change_24h'')"

definition context_priceChange1h :: "provider \<Rightarrow> string \<Rightarrow> jsval + string" where
  "context_priceChange1h pr token = and_then (market_data_of context_coins pr token)
     (\<lambda>data. truthy_percent (toFixed2 pr) data ''price_change_1h'')"

definition context_priceChange7d :: "provider \<Rightarrow> string \<Rightarrow> jsval + string" where
  "context_priceChange7d pr token = and_then (market_data_of context_coins pr token)
     (\<lambda>data. truthy_percent (toFixed2 pr) data ''price_change_7d'')"

definition context_priceChange30d :: "provider \<Rightarrow> string \<Rightarrow> jsval + string" where
  "context_priceChange30d pr token = and_then (market_data_of context_coins pr token)
     (\<lambda>data. truthy_percent (toFixed2 pr) data ''price_change_1m'')"

definition context_liquidityChange24h :: "provider \<Rightarrow> string \<Rightarrow> jsval + string" where
  "context_liquidityChange24h pr token = and_then (market_data_of context_coins pr token)
     (\<lambda>data. truthy_percent (toFixed2 pr) data ''liquidity_change_24h'')"

definition context_offChainVolume :: "provider \<Rightarrow> string \<Rightarrow> jsval + string" where
  "context_offChainVolume pr token = and_then (market_data_of context_coins pr token)
     (\<lambda>data. truthy_currency (toFixed2 pr) data ''off_chain_volume'')"

definition context_volume7d :: "provider \<Rightarrow> string \<Rightarrow> jsval + string" where
  "context_volume7d pr token = and_then (market_data_of context_coins pr token)
     (\<lambda>data. truthy_currency (toFixed2 pr) data ''volume_7d'')"

definition context_volumeChange24h :: "provider \<Rightarrow> string \<Rightarrow> jsval + string" where
  "context_volumeChange24h pr token = and_then (market_data_of context_coins pr token)
     (\<lambda>data. truthy_percent (toFixed2 pr) data ''volume_change_24h'')"

definition context_priceChange1m :: "provider \<Rightarrow> string \<Rightarrow> jsval + string" where
  "context_priceChange1m pr token = and_then (market_data_of context_coins pr token)
     (\<lambda>data. truthy_percent (toFixed2 pr) data ''price_change_1m'')"

definition context_priceChange1y :: "provider \<Rightarrow> string \<Rightarrow> jsval + string" where
  "context_priceChange1y pr token = and_then (market_data_of context_coins pr token)
     (\<lambda>data. truthy_percent (toFixed2 pr) data ''price_change_1y'')"

definition context_ath :: "provider \<Rightarrow> string \<Rightarrow> jsval + string" where
  "context_ath pr token = and_then (market_data_of context_coins pr token)
     (\<lambda>data. truthy_currency (toFixed2 pr) data ''ath'')"

definition context_atl :: "provider \<Rightarrow> string \<Rightarrow> jsval + string" where
  "context_atl pr token = and_then (market_data_of context_coins pr token)
     (\<lambda>data. truthy_currency (toFixed2 pr) data ''atl'')"

section \<open>Execution engine\<close>

subsection \<open>Normalizing\<close>

text \<open>
  \<^verbatim>\<open>
  const cleanCode = code
    .replace(/```javascript\n?/, "")
    .replace(/```\n?/, "")
    .trim();
  \<close>
  Neither pattern is anchored and neither carries the flag \<^verbatim>\<open>g\<close>:
  \<^verbatim>\<open>String.prototype.replace\<close> then rewrites the leftmost match only, wherever it lies.
  A match is the marker and, greedily, one line feed after it.
\<close>

definition line_feed :: char where
  "line_feed = CHR 0x0A"

fun optional_line_feed :: "string \<Rightarrow> string" where
  "optional_line_feed [] = []"
| "optional_line_feed (c # cs) = (if c = line_feed then cs else c # cs)"

fun replace_first :: "string \<Rightarrow> string \<Rightarrow> string" where
  "replace_first marker [] = []"
| "replace_first marker (c # cs) =
     (if prefix marker (c # cs)
      then optional_line_feed (drop (length marker) (c # cs))
      else c # replace_first marker cs)"

text \<open>
  \<^verbatim>\<open>String.prototype.trim\<close> removes white space and line terminators at both ends;
  among the characters of one byte these are tab, line feed, vertical tab, form feed,
  carriage return, space and the no-break space.
\<close>

definition is_space :: "char \<Rightarrow> bool" where
  "is_space c = (c \<in> set [CHR 0x09, CHR 0x0A, CHR 0x0B, CHR 0x0C, CHR 0x0D, CHR 0x20, CHR 0xA0])"

definition trim :: "string \<Rightarrow> string" where
  "trim s = rev (dropWhile is_space (rev (dropWhile is_space s)))"

definition cleanCode :: "string \<Rightarrow> string" where
  "cleanCode code = trim (replace_first ''```'' (replace_first ''```javascript'' code))"

subsection \<open>The registry\<close>

text \<open>
  \<^verbatim>\<open>Object.keys(context)\<close>: the keys of the object literal \<^verbatim>\<open>context\<close>, in the order
  in which \<^verbatim>\<open>executeCode\<close> writes them. The value under a key is named by the key.
\<close>

definition context_keys :: "string list" where
  "context_keys =
     [''coins'', ''getTokenName'', ''price'', ''volume'', ''marketCap'', ''marketCapDiluted'',
      ''liquidity'', ''priceChange24h'', ''priceChange1h'', ''priceChange7d'',
      ''getPriceHistory'', ''getHistoricPortfolioData'', ''getWalletPortfolio'',
      ''website'', ''twitter'', ''telegram'', ''discord'', ''description'',
      ''usePerplexity'', ''cexs'', ''investors'', ''distribution'', ''releaseSchedule'',
      ''console'', ''priceChange30d'', ''priceHistoryData'', ''liquidityChange24h'',
      ''offChainVolume'', ''volume7d'', ''volumeChange24h'', ''priceChange1m'',
      ''priceChange1y'', ''ath'', ''atl'', ''rank'', ''totalSupply'', ''circulatingSupply'',
      ''isListed'', ''TIME_PERIODS'', ''portfolioAddresses'', ''getSocialData'',
      ''getListByCategory'', ''getTopicNews'']"

definition "context" :: "(string \<times> jsval) list" where
  "context = map (\<lambda>k. (k, JCap k)) context_keys"

subsection \<open>Compiling and running\<close>

text \<open>
  \<^verbatim>\<open>
  const fn = new AsyncFunction(
    ...Object.keys(context),
    `
    try {
      ${cleanCode}
    } catch (error) {
      console.error('Error in executed code:', error);
      throw error;
    }
  `
  );
  \<close>
  The text handed to the constructor is the normalized code between a fixed head and a
  fixed tail.
\<close>

definition wrap_head :: string where
  "wrap_head = [line_feed] @ ''      try {'' @ [line_feed] @ ''        ''"

definition wrap_tail :: string where
  "wrap_tail =
     [line_feed] @ ''      } catch (error) {'' @
     [line_feed] @ ''        console.error('Error in executed code:', error);'' @
     [line_feed] @ ''        throw error;'' @
     [line_feed] @ ''      }'' @
     [line_feed] @ ''    ''"

definition wrap_body :: "string \<Rightarrow> string" where
  "wrap_body code = wrap_head @ code @ wrap_tail"

text \<open>
  The host is what \<^verbatim>\<open>agent.js\<close> calls and does not define: the constructor of
  asynchronous functions and the console. Constructing a function from parameter names
  and a body either throws or gives a callable; awaiting a call of it on argument values
  either gives its result or throws, and may change the world \<open>'w\<close> outside
  (requests sent, lines logged). \<open>Inl\<close> is the value thrown.
\<close>

type_synonym 'w callable = "jsval list \<Rightarrow> 'w \<Rightarrow> (jsval + jsval) \<times> 'w"

record 'w host =
  compile :: "string list \<Rightarrow> string \<Rightarrow> jsval + 'w callable"
  console_error :: "string \<Rightarrow> jsval \<Rightarrow> 'w \<Rightarrow> 'w"

text \<open>
  \<^verbatim>\<open>executeCode\<close> is asynchronous: its caller gets a promise that is fulfilled with the
  value returned or rejected with the value thrown.
\<close>

datatype outcome = Returned jsval | Thrown jsval

text \<open>
  \<^verbatim>\<open>error.message\<close> inside the template of the outer handler: the message of an
  error object; a \<^verbatim>\<open>TypeError\<close> of its own when the value thrown is
  \<^verbatim>\<open>undefined\<close> or \<^verbatim>\<open>null\<close>; otherwise the missing property, printed as
  \<^verbatim>\<open>undefined\<close>.
\<close>

fun message_text :: "jsval \<Rightarrow> jsval + string" where
  "message_text (JError n m c) = Inr m"
| "message_text JUndefined =
     Inl (type_error ''Cannot read properties of undefined (reading message)'')"
| "message_text JNull =
     Inl (type_error ''Cannot read properties of null (reading message)'')"
| "message_text v = Inr ''undefined''"

text \<open>
  \<^verbatim>\<open>
  } catch (error) {
    console.error("Error executing code:", error);
    throw new Error(`Code execution failed: ${error.message}`);
  }
  \<close>
\<close>

definition on_failure :: "'w host \<Rightarrow> jsval \<Rightarrow> 'w \<Rightarrow> outcome \<times> 'w" where
  "on_failure h error w =
     (let w' = console_error h ''Error executing code:'' error w
      in case message_text error of
           Inl e \<Rightarrow> (Thrown e, w')
         | Inr m \<Rightarrow> (Thrown (JError ''Error'' (''Code execution failed: '' @ m) None), w'))"

definition executeCode :: "'w host \<Rightarrow> string \<Rightarrow> 'w \<Rightarrow> outcome \<times> 'w" where
  "executeCode h code w =
     (case compile h (map fst context) (wrap_body (cleanCode code)) of
        Inl error \<Rightarrow> on_failure h error w
      | Inr fn \<Rightarrow>
          (case fn (map snd context) w of
             (Inr result, w') \<Rightarrow> (Returned result, w')
           | (Inl error, w') \<Rightarrow> on_failure h error w'))"

subsection \<open>Hosts that run an expression\<close>

text \<open>
  To say what the executed code can reach, and to run \<^verbatim>\<open>executeCode\<close> on concrete
  texts, the host is given more structure. The hosts below compile the text handed to
  the constructor to the expression \<open>e\<close> of a statement \<^verbatim>\<open>return e;\<close> inside
  the engine's wrapper, where \<open>e\<close> is built from identifiers, decimal literals,
  \<^verbatim>\<open>typeof\<close> of an identifier, and operators that evaluate every operand, from left
  to right, before they apply (arithmetic, member access, calls, \<^verbatim>\<open>await\<close>). The
  parser, the meaning of each operator, the console and the global object are
  parameters. What is fixed is what ECMAScript fixes:
  \<^item> a function made by the function constructor closes over the global environment
    only, so an identifier is looked up among the parameters and then among the
    properties of the global object; the scope of the module that called the
    constructor is not on that chain;
  \<^item> evaluating an identifier bound in neither place throws a \<^verbatim>\<open>ReferenceError\<close>
    whose message is the identifier followed by \<^verbatim>\<open>is not defined\<close>, except under
    \<^verbatim>\<open>typeof\<close>, which gives the string \<^verbatim>\<open>undefined\<close> for it;
  \<^item> an operand that throws ends the evaluation;
  \<^item> the wrapper catches what the statement throws, logs it and throws it again.
\<close>

datatype expr = Var string | Lit nat | Typeof string | Op string "expr list"

definition reference_error :: "string \<Rightarrow> jsval" where
  "reference_error x = JError ''ReferenceError'' (x @ '' is not defined'') None"

text \<open>
  Parameters for which no argument is passed are bound to \<^verbatim>\<open>undefined\<close>.
\<close>

definition bind_params :: "string list \<Rightarrow> jsval list \<Rightarrow> (string \<times> jsval) list" where
  "bind_params params args =
     zip params (args @ replicate (length params - length args) JUndefined)"

definition resolve :: "(string \<times> jsval) list \<Rightarrow> string list \<Rightarrow> jsval list \<Rightarrow> string \<Rightarrow> jsval + jsval" where
  "resolve globals params args x =
     (case map_of (bind_params params args) x of
        Some v \<Rightarrow> Inr v
      | None \<Rightarrow>
          (case map_of globals x of
             Some v \<Rightarrow> Inr v
           | None \<Rightarrow> Inl (reference_error x)))"

type_synonym 'w operators = "string \<Rightarrow> jsval list \<Rightarrow> 'w \<Rightarrow> (jsval + jsval) \<times> 'w"

fun eval_expr :: "'w operators \<Rightarrow> (string \<times> jsval) list \<Rightarrow> string list \<Rightarrow> jsval list \<Rightarrow> expr \<Rightarrow> 'w
                  \<Rightarrow> (jsval + jsval) \<times> 'w"
  and eval_operands :: "'w operators \<Rightarrow> (string \<times> jsval) list \<Rightarrow> string list \<Rightarrow> jsval list \<Rightarrow> expr list \<Rightarrow> 'w
                  \<Rightarrow> (jsval + jsval list) \<times> 'w" where
  "eval_expr ops globals params args (Var x) w = (resolve globals params args x, w)"
| "eval_expr ops globals params args (Lit n) w = (Inr (JNum (Fin (real n))), w)"
| "eval_expr ops globals params args (Typeof x) w =
     (case resolve globals params args x of
        Inl error \<Rightarrow> (Inr (JStr ''undefined''), w)
      | Inr v \<Rightarrow> ops ''typeof'' [v] w)"
| "eval_expr ops globals params args (Op f es) w =
     (case eval_operands ops globals params args es w of
        (Inl error, w') \<Rightarrow> (Inl error, w')
      | (Inr vs, w') \<Rightarrow> ops f vs w')"
| "eval_operands ops globals params args [] w = (Inr [], w)"
| "eval_operands ops globals params args (e # es) w =
     (case eval_expr ops globals params args e w of
        (Inl error, w') \<Rightarrow> (Inl error, w')
      | (Inr v, w') \<Rightarrow>
          (case eval_operands ops globals params args es w' of
             (Inl error, w'') \<Rightarrow> (Inl error, w'')
           | (Inr vs, w'') \<Rightarrow> (Inr (v # vs), w'')))"


text \<open>
  The compiled function: the statement inside the wrapper's \<^verbatim>\<open>try\<close>, and the
  wrapper's handler, which logs and throws again.
\<close>

definition expression_callable ::
  "'w operators \<Rightarrow> (string \<Rightarrow> jsval \<Rightarrow> 'w \<Rightarrow> 'w) \<Rightarrow> (string \<times> jsval) list \<Rightarrow> string list \<Rightarrow> expr
     \<Rightarrow> 'w callable" where
  "expression_callable ops logger globals params e args w =
     (case eval_expr ops globals params args e w of
        (Inr v, w') \<Rightarrow> (Inr v, w')
      | (Inl error, w') \<Rightarrow> (Inl error, logger ''Error in executed code:'' error w'))"

definition expression_host ::
  "(string \<Rightarrow> jsval + expr) \<Rightarrow> 'w operators \<Rightarrow> (string \<Rightarrow> jsval \<Rightarrow> 'w \<Rightarrow> 'w) \<Rightarrow> (string \<times> jsval) list
     \<Rightarrow> 'w host" where
  "expression_host parse ops logger globals =
     \<lparr> compile = (\<lambda>params body.
         case parse body of
           Inl error \<Rightarrow> Inl error
         | Inr e \<Rightarrow> Inr (expression_callable ops logger globals params e)),
       console_error = logger \<rparr>"

subsection \<open>A host for a fragment of the language\<close>

text \<open>
  The host on which the concrete texts below are run. Its parser knows a fragment only:
  the engine's wrapper around the single statement \<^verbatim>\<open>return e;\<close>, where \<open>e\<close> is an
  identifier or a sum of decimal literals written without spaces, which it folds to one
  literal. It refuses every other text at compilation, and no result below evaluates a
  text it refuses. It has no operators to apply. Its world is the list of lines sent to
  \<^verbatim>\<open>console.error\<close>.
\<close>

type_synonym console_log = "(string \<times> jsval) list"

definition unwrap_body :: "string \<Rightarrow> string option" where
  "unwrap_body body =
     (if prefix wrap_head body \<and> suffix wrap_tail body \<and>
         length wrap_head + length wrap_tail \<le> length body
      then Some (take (length body - length wrap_head - length wrap_tail)
                      (drop (length wrap_head) body))
      else None)"

definition ident_start :: "char \<Rightarrow> bool" where
  "ident_start c =
     (c \<in> set ''abcdefghijklmnopqrstuvwxyzABCDEFGHIJKLMNOPQRSTUVWXYZ_$'')"

definition ident_part :: "char \<Rightarrow> bool" where
  "ident_part c = (ident_start c \<or> c \<in> set ''0123456789'')"

text \<open>
  Words that are not identifier references: the reserved words, the literals written
  as words, and \<^verbatim>\<open>arguments\<close>, which every function binds.
\<close>

definition reserved_words :: "string list" where
  "reserved_words =
     [''break'', ''case'', ''catch'', ''class'', ''const'', ''continue'', ''debugger'',
      ''default'', ''delete'', ''do'', ''else'', ''enum'', ''export'', ''extends'', ''false'',
      ''finally'', ''for'', ''function'', ''if'', ''import'', ''in'', ''instanceof'', ''new'',
      ''null'', ''return'', ''super'', ''switch'', ''this'', ''throw'', ''true'', ''try'',
      ''typeof'', ''var'', ''void'', ''while'', ''with'', ''yield'', ''let'', ''static'',
      ''implements'', ''interface'', ''package'', ''private'', ''protected'', ''public'',
      ''await'', ''async'', ''arguments'']"

definition is_identifier :: "string \<Rightarrow> bool" where
  "is_identifier s =
     (case s of
        [] \<Rightarrow> False
      | c # cs \<Rightarrow> ident_start c \<and> list_all ident_part cs \<and> s \<notin> set reserved_words)"

definition digit_value :: "char \<Rightarrow> nat option" where
  "digit_value c = map_of (zip ''0123456789'' [0, 1, 2, 3, 4, 5, 6, 7, 8, 9]) c"

fun decimal_digits :: "nat \<Rightarrow> string \<Rightarrow> nat option" where
  "decimal_digits acc [] = Some acc"
| "decimal_digits acc (c # cs) =
     (case digit_value c of
        None \<Rightarrow> None
      | Some d \<Rightarrow> decimal_digits (10 * acc + d) cs)"

text \<open>A decimal integer literal; a leading zero would make it an octal one.\<close>

definition decimal_literal :: "string \<Rightarrow> nat option" where
  "decimal_literal s =
     (case s of
        [] \<Rightarrow> None
      | c # cs \<Rightarrow> if c = CHR ''0'' \<and> cs \<noteq> [] then None else decimal_digits 0 s)"

fun split_plus :: "string \<Rightarrow> string list" where
  "split_plus [] = [[]]"
| "split_plus (c # cs) =
     (if c = CHR ''+'' then [] # split_plus cs
      else (case split_plus cs of
              [] \<Rightarrow> [[c]]
            | p # ps \<Rightarrow> (c # p) # ps))"

fun sum_literals :: "nat option list \<Rightarrow> nat option" where
  "sum_literals [] = Some 0"
| "sum_literals (None # xs) = None"
| "sum_literals (Some n # xs) = map_option (\<lambda>m. n + m) (sum_literals xs)"

definition parse_expr :: "string \<Rightarrow> expr option" where
  "parse_expr s =
     (if is_identifier s then Some (Var s)
      else map_option Lit (sum_literals (map decimal_literal (split_plus s))))"

definition parse_return :: "string \<Rightarrow> expr option" where
  "parse_return s =
     (if prefix ''return '' s \<and> 8 \<le> length s \<and> last s = CHR '';''
      then parse_expr (butlast (drop 7 s))
      else None)"

definition not_in_fragment :: jsval where
  "not_in_fragment = JError ''SyntaxError'' ''text outside the modelled fragment'' None"

definition fragment_parse :: "string \<Rightarrow> jsval + expr" where
  "fragment_parse body =
     (case unwrap_body body of
        None \<Rightarrow> Inl not_in_fragment
      | Some inner \<Rightarrow>
          (case parse_return inner of
             None \<Rightarrow> Inl not_in_fragment
           | Some e \<Rightarrow> Inr e))"

definition no_operators :: "console_log operators" where
  "no_operators f vs w = (Inl not_in_fragment, w)"

definition log_line :: "string \<Rightarrow> jsval \<Rightarrow> console_log \<Rightarrow> console_log" where
  "log_line label v w = w @ [(label, v)]"

definition fragment_host :: "(string \<times> jsval) list \<Rightarrow> console_log host" where
  "fragment_host globals = expression_host fragment_parse no_operators log_line globals"

text \<open>
  Properties that ECMAScript gives the global object of every host: its value
  properties, and some of its functions, constructors and namespaces. A host adds its
  own to them.
\<close>

definition standard_globals :: "(string \<times> jsval) list" where
  "standard_globals =
     [(''undefined'', JUndefined), (''NaN'', JNum NaN), (''Infinity'', JNum PInf),
      (''globalThis'', JObj ''globalThis''), (''eval'', JObj ''eval''),
      (''isFinite'', JObj ''isFinite''), (''isNaN'', JObj ''isNaN''),
      (''parseFloat'', JObj ''parseFloat''), (''parseInt'', JObj ''parseInt''),
      (''Object'', JObj ''Object''), (''Function'', JObj ''Function''),
      (''Array'', JObj ''Array''), (''String'', JObj ''String''),
      (''Number'', JObj ''Number''), (''Boolean'', JObj ''Boolean''),
      (''Symbol'', JObj ''Symbol''), (''Date'', JObj ''Date''),
      (''Promise'', JObj ''Promise''), (''RegExp'', JObj ''RegExp''),
      (''Error'', JObj ''Error''), (''JSON'', JObj ''JSON''), (''Math'', JObj ''Math''),
      (''Reflect'', JObj ''Reflect'')]"

section \<open>Properties of the indicator kernel\<close>

subsection \<open>Arithmetic on the special values\<close>

lemma js_sub_self: "js_sub x x = (if is_finite x then Fin 0 else NaN)"
  by (cases x) (simp_all add: js_sub_def)

lemma is_finiteE: "is_finite x \<Longrightarrow> \<exists>a. x = Fin a"
  by (cases x) simp_all

lemma js_lt_diff_pos: "js_lt a b \<Longrightarrow> pos (js_sub b a)"
  by (cases a; cases b) (simp_all add: js_sub_def)

lemma pos_ge0: "pos d \<Longrightarrow> js_ge d (Fin 0)"
  by (cases d) (simp_all add: js_ge_def)

lemma pos_add: "pos g \<or> g = Fin 0 \<Longrightarrow> pos d \<Longrightarrow> pos (js_add g d)"
  by (cases g; cases d) auto

subsection \<open>The moving average\<close>

text \<open>
  The loop over the indices from \<open>i\<close> folds the recurrence over the elements from \<open>i\<close>
  on: it visits every element that is left, not a window of them.
\<close>

lemma ema_loop_foldl:
  "i \<le> length ps \<Longrightarrow>
   ema_loop ps m i (Some e) = Some (foldl (ema_step m) e (drop i ps))"
proof (induction ps m i "Some e" arbitrary: e rule: ema_loop.induct)
  case (1 prices multiplier i)
  show ?case
  proof (cases "i < length prices")
    case True
    then have d: "drop i prices = prices ! i # drop (Suc i) prices"
      by (simp add: Cons_nth_drop_Suc)
    from True have a: "elem_at prices (int i) = Some (prices ! i)"
      by (simp add: elem_at_def)
    from True have "i + 1 \<le> length prices" by simp
    from 1(1)[OF True this] True
    show ?thesis
      by (subst ema_loop.simps) (simp add: a d ema_step_def)
  next
    case False
    with 1(2) show ?thesis
      by (subst ema_loop.simps) simp
  qed
qed

lemma calculateEMA_Cons:
  "calculateEMA (x # xs) period =
     Some (foldl (ema_step (js_div (Fin 2) (js_add period (Fin 1)))) x xs)"
  by (simp add: calculateEMA_def elem_at_def ema_loop_foldl)

lemma calculateEMA_Nil: "calculateEMA [] period = None"
  by (simp add: calculateEMA_def elem_at_def ema_loop.simps)

lemma calculateEMA_single: "calculateEMA [x] period = Some x"
  by (simp add: calculateEMA_Cons)

text \<open>
  C6. \<^verbatim>\<open>calculateEMA\<close> starts from the first element, uses the multiplier
  \<open>2 / (period + 1)\<close> and applies the recurrence \<open>ema := (p - ema) * multiplier + ema\<close>
  to every later element of the sequence in order, whatever the period; on a sequence
  of one element it returns that element, for every period. (On the empty sequence it
  returns \<^verbatim>\<open>undefined\<close>.)
\<close>

theorem calculateEMA_whole_sequence:
  "calculateEMA (x # xs) period =
     Some (foldl (\<lambda>ema p. js_add (js_mul (js_sub p ema) (js_div (Fin 2) (js_add period (Fin 1)))) ema) x xs)
   \<and> calculateEMA [x] period = Some x
   \<and> calculateEMA [] period = None"
proof -
  have "ema_step m = (\<lambda>ema p. js_add (js_mul (js_sub p ema) m) ema)" for m
    by (intro ext) (simp add: ema_step_def)
  then show ?thesis
    by (simp add: calculateEMA_Cons calculateEMA_Nil)
qed

theorem calculateEMA_whole_sequence_witness:
  "calculateEMA [Fin 1, Fin 2, Fin 4] (Fin 3) = Some (Fin (11 / 4))
   \<and> calculateEMA [Fin 7] (Fin (- 1)) = Some (Fin 7)
   \<and> calculateEMA [NaN] (Fin 9) = Some NaN"
  using calculateEMA_whole_sequence [of "Fin 1" "[Fin 2, Fin 4]" "Fin 3"]
    calculateEMA_whole_sequence [of "Fin 7" "[]" "Fin (- 1)"]
    calculateEMA_whole_sequence [of NaN "[]" "Fin 9"]
  by (simp add: js_sub_def)

subsection \<open>The MACD record\<close>

lemma calculateMACD_signalLine:
  "signalLine (calculateMACD prices) = Some (macdLine (calculateMACD prices))"
  by (simp add: calculateMACD_def Let_def calculateEMA_single)

lemma calculateMACD_histogram:
  "histogram (calculateMACD prices) =
     (if is_finite (macdLine (calculateMACD prices)) then Fin 0 else NaN)"
  by (simp add: calculateMACD_def Let_def calculateEMA_single js_sub_self)

text \<open>
  With exact finite arithmetic a sequence of finite prices keeps every average finite,
  so the MACD line of such a sequence is finite. (In binary64 an intermediate result can
  still overflow; the model does not show that.)
\<close>

lemma ema_step_finite:
  "is_finite m \<Longrightarrow> is_finite e \<Longrightarrow> is_finite p \<Longrightarrow> is_finite (ema_step m e p)"
  by (cases m; cases e; cases p) (simp_all add: ema_step_def js_sub_def)

lemma foldl_ema_finite:
  "is_finite m \<Longrightarrow> is_finite e \<Longrightarrow> \<forall>p \<in> set ps. is_finite p \<Longrightarrow>
   is_finite (foldl (ema_step m) e ps)"
  by (induction ps arbitrary: e) (simp_all add: ema_step_finite)

lemma calculateEMA_finite:
  assumes "prices \<noteq> []" and "\<forall>p \<in> set prices. is_finite p" and "0 < k"
  shows "\<exists>a. calculateEMA prices (Fin k) = Some (Fin a)"
proof -
  from assms(1) obtain x xs where p: "prices = x # xs" by (cases prices) auto
  from assms(3) have m: "is_finite (js_div (Fin 2) (js_add (Fin k) (Fin 1)))" by simp
  from assms(2) p have "is_finite (foldl (ema_step (js_div (Fin 2) (js_add (Fin k) (Fin 1)))) x xs)"
    by (intro foldl_ema_finite m) simp_all
  then show ?thesis
    unfolding p calculateEMA_Cons by (simp add: is_finiteE)
qed

lemma calculateMACD_finite_prices:
  assumes "prices \<noteq> []" and "\<forall>p \<in> set prices. is_finite p"
  shows "is_finite (macdLine (calculateMACD prices))"
proof -
  from calculateEMA_finite[OF assms, of 12]
  obtain a where a: "calculateEMA prices (Fin 12) = Some (Fin a)" by auto
  from calculateEMA_finite[OF assms, of 26]
  obtain b where b: "calculateEMA prices (Fin 26) = Some (Fin b)" by auto
  show ?thesis
    by (simp add: calculateMACD_def a b Let_def js_sub_def)
qed

text \<open>
  C5, as stated: for every price sequence with at least one element the histogram of
  \<^verbatim>\<open>calculateMACD\<close> is 0. It is not: on the one-element sequence
  \<^verbatim>\<open>[Infinity]\<close> both averages are \<^verbatim>\<open>Infinity\<close>, the MACD line is
  \<^verbatim>\<open>Infinity - Infinity = NaN\<close>, and the histogram \<^verbatim>\<open>NaN - NaN\<close> is
  \<^verbatim>\<open>NaN\<close>.
\<close>

theorem calculateMACD_histogram_counterexample:
  "[PInf] \<noteq> [] \<and> macdLine (calculateMACD [PInf]) = NaN \<and>
   histogram (calculateMACD [PInf]) = NaN \<and> histogram (calculateMACD [PInf]) \<noteq> Fin 0"
  by (simp add: calculateMACD_def Let_def calculateEMA_single js_sub_def)

text \<open>
  C5, amended. For every price sequence the signal line of \<^verbatim>\<open>calculateMACD\<close> is the
  very value of its MACD line (the average of the one-element sequence holding it), and
  the histogram is 0 when the MACD line is finite and \<^verbatim>\<open>NaN\<close> when the MACD line is
  \<^verbatim>\<open>NaN\<close> or infinite.
\<close>

theorem calculateMACD_signal_and_histogram:
  "signalLine (calculateMACD prices) = Some (macdLine (calculateMACD prices)) \<and>
   histogram (calculateMACD prices) =
     (if is_finite (macdLine (calculateMACD prices)) then Fin 0 else NaN)"
  by (simp only: calculateMACD_signalLine calculateMACD_histogram simp_thms)

theorem calculateMACD_signal_and_histogram_witness:
  "macdLine (calculateMACD [Fin 1, Fin 2, Fin 4]) = Fin (37072 / 123201) \<and>
   signalLine (calculateMACD [Fin 1, Fin 2, Fin 4]) = Some (Fin (37072 / 123201)) \<and>
   histogram (calculateMACD [Fin 1, Fin 2, Fin 4]) = Fin 0"
proof -
  have m: "macdLine (calculateMACD [Fin 1, Fin 2, Fin 4]) = Fin (37072 / 123201)"
    by (simp add: calculateMACD_def Let_def calculateEMA_Cons ema_step_def js_sub_def)
  from calculateMACD_signal_and_histogram [of "[Fin 1, Fin 2, Fin 4]"] m
  show ?thesis by simp
qed

subsection \<open>The relative strength index\<close>

lemma rsi_loop_increasing:
  "1 \<le> i \<Longrightarrow> pos g \<or> g = Fin 0 \<Longrightarrow>
   \<forall>j. i \<le> j \<and> j < int (length ps) \<longrightarrow> js_lt (ps ! nat (j - 1)) (ps ! nat j) \<Longrightarrow>
   \<exists>g'. rsi_loop ps i g (Fin 0) = (g', Fin 0) \<and> (pos g' \<or> g' = Fin 0)
        \<and> (pos g \<or> i < int (length ps) \<longrightarrow> pos g')"
proof (induction ps i g "Fin 0" rule: rsi_loop.induct)
  case (1 prices i gains)
  show ?case
  proof (cases "i < int (length prices)")
    case True
    define d where "d = js_sub (to_num (elem_at prices i)) (to_num (elem_at prices (i - 1)))"
    from True 1(3) have e: "elem_at prices i = Some (prices ! nat i)"
      "elem_at prices (i - 1) = Some (prices ! nat (i - 1))"
      by (simp_all add: elem_at_def)
    from 1(5) True have "js_lt (prices ! nat (i - 1)) (prices ! nat i)" by simp
    then have pd: "pos d" unfolding d_def e by (simp add: js_lt_diff_pos)
    then have ge: "js_ge d (Fin 0)" by (rule pos_ge0)
    from 1(4) pd have pg: "pos (js_add gains d)" by (rule pos_add)
    have "\<exists>g'. rsi_loop prices (i + 1) (js_add gains d) (Fin 0) = (g', Fin 0)
            \<and> (pos g' \<or> g' = Fin 0)
            \<and> (pos (js_add gains d) \<or> i + 1 < int (length prices) \<longrightarrow> pos g')"
      using 1(1)[OF True d_def ge] 1(3) pg 1(5) by simp
    with pg True ge show ?thesis
      by (subst rsi_loop.simps) (auto simp: d_def[symmetric] Let_def)
  next
    case False
    with 1(4) show ?thesis
      by (subst rsi_loop.simps) auto
  qed
qed

lemma rsi_result_no_loss:
  assumes "pos g" and "0 < p"
  shows "js_sub (Fin 100)
           (js_div (Fin 100) (js_add (Fin 1) (js_div (js_div g (Fin p)) (js_div (Fin 0) (Fin p)))))
         = Fin 100"
  using assms by (cases g) (simp_all add: js_sub_def)

lemma window_index:
  assumes "period + 1 \<le> length prices"
    and "int (length prices) - int period \<le> j" and "j < int (length prices)"
  shows "length prices - period \<le> nat j \<and> nat j < length prices \<and> nat (j - 1) = nat j - 1"
  using assms by linarith

text \<open>
  C7. For every period of at least 1 and every price sequence of at least \<open>period + 1\<close>
  elements whose last \<open>period + 1\<close> elements increase strictly, \<^verbatim>\<open>calculateRSI\<close>
  returns exactly 100: no loss is summed, the relative strength is a positive number
  over zero, which is infinite, and \<open>100 - 100 / (1 + \<infinity>)\<close> is 100.
\<close>

theorem calculateRSI_strictly_increasing:
  assumes "1 \<le> period" and "period + 1 \<le> length prices"
    and "\<forall>j. length prices - period \<le> j \<and> j < length prices
             \<longrightarrow> js_lt (prices ! (j - 1)) (prices ! j)"
  shows "calculateRSI prices period = Fin 100"
proof -
  let ?i = "int (length prices) - int period"
  have i1: "1 \<le> ?i" using assms(2) by simp
  have inc: "\<forall>j. ?i \<le> j \<and> j < int (length prices)
                \<longrightarrow> js_lt (prices ! nat (j - 1)) (prices ! nat j)"
  proof (intro allI impI)
    fix j assume j: "?i \<le> j \<and> j < int (length prices)"
    then have w: "length prices - period \<le> nat j \<and> nat j < length prices \<and> nat (j - 1) = nat j - 1"
      using window_index[OF assms(2)] by blast
    with assms(3) have "js_lt (prices ! (nat j - 1)) (prices ! nat j)" by blast
    with w show "js_lt (prices ! nat (j - 1)) (prices ! nat j)" by simp
  qed
  from assms(1,2) have lt: "?i < int (length prices)" by simp
  from rsi_loop_increasing[OF i1 _ inc, of "Fin 0"] lt
  obtain g' where g: "rsi_loop prices ?i (Fin 0) (Fin 0) = (g', Fin 0)" and p: "pos g'"
    by auto
  from assms(1) have "0 < real period" by simp
  from rsi_result_no_loss[OF p this] show ?thesis
    by (simp add: calculateRSI_def g)
qed

theorem calculateRSI_strictly_increasing_witness:
  "calculateRSI [Fin 5, Fin 1, Fin 2, Fin 4] 2 = Fin 100"
proof -
  have "\<forall>j. length [Fin 5, Fin 1, Fin 2, Fin 4] - 2 \<le> j \<and> j < length [Fin 5, Fin 1, Fin 2, Fin 4]
           \<longrightarrow> js_lt ([Fin 5, Fin 1, Fin 2, Fin 4] ! (j - 1)) ([Fin 5, Fin 1, Fin 2, Fin 4] ! j)"
  proof (intro allI impI)
    fix j :: nat
    assume "length [Fin 5, Fin 1, Fin 2, Fin 4] - 2 \<le> j \<and> j < length [Fin 5, Fin 1, Fin 2, Fin 4]"
    then have "j = 2 \<or> j = 3" by auto
    then show "js_lt ([Fin 5, Fin 1, Fin 2, Fin 4] ! (j - 1)) ([Fin 5, Fin 1, Fin 2, Fin 4] ! j)"
      by auto
  qed
  then show ?thesis
    by (intro calculateRSI_strictly_increasing) simp_all
qed

lemma js_sub_NaN_right: "js_sub x NaN = NaN"
  by (cases x) (simp_all add: js_sub_def)

lemma rsi_loop_flat:
  "1 \<le> i \<Longrightarrow> l = Fin 0 \<or> l = NaN \<Longrightarrow>
   \<forall>j. i \<le> j \<and> j < int (length ps) \<longrightarrow> ps ! nat (j - 1) = ps ! nat j \<Longrightarrow>
   \<exists>l'. rsi_loop ps i (Fin 0) l = (Fin 0, l') \<and> (l' = Fin 0 \<or> l' = NaN)"
proof (induction ps i "Fin 0" l rule: rsi_loop.induct)
  case (1 prices i losses)
  show ?case
  proof (cases "i < int (length prices)")
    case True
    define d where "d = js_sub (to_num (elem_at prices i)) (to_num (elem_at prices (i - 1)))"
    from True 1(3) have e: "elem_at prices i = Some (prices ! nat i)"
      "elem_at prices (i - 1) = Some (prices ! nat (i - 1))"
      by (simp_all add: elem_at_def)
    from 1(5) True have "prices ! nat (i - 1) = prices ! nat i" by simp
    then have dv: "d = (if is_finite (prices ! nat i) then Fin 0 else NaN)"
      unfolding d_def e by (simp add: js_sub_self)
    show ?thesis
    proof (cases "is_finite (prices ! nat i)")
      case fin: True
      with dv have d0: "d = Fin 0" by simp
      then have ge: "js_ge d (Fin 0)" by (simp add: js_ge_def)
      have "js_add (Fin 0) d = Fin 0" by (simp add: d0)
      with 1(1)[OF True d_def ge] 1(3,4,5)
      have "\<exists>l'. rsi_loop prices (i + 1) (Fin 0) losses = (Fin 0, l') \<and> (l' = Fin 0 \<or> l' = NaN)"
        by simp
      with True ge d0 show ?thesis
        by (subst rsi_loop.simps) (simp add: d_def[symmetric] Let_def)
    next
      case nfin: False
      with dv have dn: "d = NaN" by simp
      then have ge: "\<not> js_ge d (Fin 0)" by (simp add: js_ge_def)
      have ln: "js_sub losses d = NaN" by (simp add: dn js_sub_NaN_right)
      from 1(2)[OF True d_def ge] 1(3,5) ln
      have "\<exists>l'. rsi_loop prices (i + 1) (Fin 0) (js_sub losses d) = (Fin 0, l')
              \<and> (l' = Fin 0 \<or> l' = NaN)"
        by simp
      with True ge show ?thesis
        by (subst rsi_loop.simps) (simp add: d_def[symmetric] Let_def)
    qed
  next
    case False
    with 1(4) show ?thesis
      by (subst rsi_loop.simps) auto
  qed
qed

lemma rsi_result_no_gain:
  assumes "l = Fin 0 \<or> l = NaN" and "0 < p"
  shows "js_sub (Fin 100)
           (js_div (Fin 100) (js_add (Fin 1) (js_div (js_div (Fin 0) (Fin p)) (js_div l (Fin p)))))
         = NaN"
  using assms by (auto simp: js_sub_def)

text \<open>
  C10. For every period of at least 1 and every price sequence of at least
  \<open>period + 1\<close> elements whose last \<open>period + 1\<close> elements are all equal,
  \<^verbatim>\<open>calculateRSI\<close> returns \<^verbatim>\<open>NaN\<close>: no gain and no loss is summed, and the
  relative strength is \<open>0 / 0\<close>. It does not return a number between 0 and 100 and it
  does not raise. (Equal elements that are not finite make every delta \<^verbatim>\<open>NaN\<close>,
  and the result is \<^verbatim>\<open>NaN\<close> as well.)
\<close>

theorem calculateRSI_flat:
  assumes "1 \<le> period" and "period + 1 \<le> length prices"
    and "\<forall>j. length prices - period \<le> j \<and> j < length prices
             \<longrightarrow> prices ! (j - 1) = prices ! j"
  shows "calculateRSI prices period = NaN"
proof -
  let ?i = "int (length prices) - int period"
  have i1: "1 \<le> ?i" using assms(2) by simp
  have flat: "\<forall>j. ?i \<le> j \<and> j < int (length prices)
                 \<longrightarrow> prices ! nat (j - 1) = prices ! nat j"
  proof (intro allI impI)
    fix j assume j: "?i \<le> j \<and> j < int (length prices)"
    then have w: "length prices - period \<le> nat j \<and> nat j < length prices \<and> nat (j - 1) = nat j - 1"
      using window_index[OF assms(2)] by blast
    with assms(3) have "prices ! (nat j - 1) = prices ! nat j" by blast
    with w show "prices ! nat (j - 1) = prices ! nat j" by simp
  qed
  from rsi_loop_flat[OF i1 _ flat, of "Fin 0"]
  obtain l' where g: "rsi_loop prices ?i (Fin 0) (Fin 0) = (Fin 0, l')"
    and l: "l' = Fin 0 \<or> l' = NaN"
    by auto
  from assms(1) have "0 < real period" by simp
  from rsi_result_no_gain[OF l this] show ?thesis
    by (simp add: calculateRSI_def g)
qed

theorem calculateRSI_flat_witness:
  "calculateRSI [Fin 5, Fin 3, Fin 3, Fin 3] 2 = NaN"
proof -
  have "\<forall>j. length [Fin 5, Fin 3, Fin 3, Fin 3] - 2 \<le> j \<and> j < length [Fin 5, Fin 3, Fin 3, Fin 3]
           \<longrightarrow> [Fin 5, Fin 3, Fin 3, Fin 3] ! (j - 1) = [Fin 5, Fin 3, Fin 3, Fin 3] ! j"
  proof (intro allI impI)
    fix j :: nat
    assume "length [Fin 5, Fin 3, Fin 3, Fin 3] - 2 \<le> j \<and> j < length [Fin 5, Fin 3, Fin 3, Fin 3]"
    then have "j = 2 \<or> j = 3" by auto
    then show "[Fin 5, Fin 3, Fin 3, Fin 3] ! (j - 1) = [Fin 5, Fin 3, Fin 3, Fin 3] ! j"
      by auto
  qed
  then show ?thesis
    by (intro calculateRSI_flat) simp_all
qed

subsection \<open>The trend label\<close>

lemma determineTrend_table:
  "determineTrend sma rsi m =
     (let bull = js_gt (macdLine m) (to_num (signalLine m));
          bear = js_lt (macdLine m) (to_num (signalLine m))
      in if js_gt rsi (Fin 70) then
           (if bull then ''Overbought, Bullish MACD Crossover''
            else if bear then ''Overbought, Bearish MACD Crossover''
            else ''Overbought'')
         else if js_lt rsi (Fin 30) then
           (if bull then ''Oversold, Bullish MACD Crossover''
            else if bear then ''Oversold, Bearish MACD Crossover''
            else ''Oversold'')
         else
           (if bull then ''Bullish MACD Crossover''
            else if bear then ''Bearish MACD Crossover''
            else ''Neutral''))"
  by (simp add: determineTrend_def Let_def)

lemma spec_TrendSignal_table:
  "spec_TrendSignal rsi m =
     (let bull = js_gt (macdLine m) (to_num (signalLine m));
          bear = js_lt (macdLine m) (to_num (signalLine m))
      in if js_gt rsi (Fin 70) then
           (if bull then ''Overbought, Bullish MACD Crossover''
            else if bear then ''Overbought, Bearish MACD Crossover''
            else ''Overbought'')
         else if js_lt rsi (Fin 30) then
           (if bull then ''Oversold, Bullish MACD Crossover''
            else if bear then ''Oversold, Bearish MACD Crossover''
            else ''Oversold'')
         else
           (if bull then ''Bullish MACD Crossover''
            else if bear then ''Bearish MACD Crossover''
            else ''Neutral''))"
  by (simp add: spec_TrendSignal_def spec_rsi_label_def spec_macd_label_def Let_def)

text \<open>
  C8. For every moving average, RSI and MACD record, \<^verbatim>\<open>determineTrend\<close> returns
  what the rule table of the specification gives: the label of the RSI rule that fired
  and the label of the MACD rule that fired, joined by a comma and a space, or
  \<^verbatim>\<open>Neutral\<close> when none fired. The table takes no moving average, so the result does
  not depend on that argument.
\<close>

theorem determineTrend_meets_spec:
  "determineTrend sma rsi m = spec_TrendSignal rsi m \<and>
   determineTrend sma rsi m = determineTrend sma' rsi m"
  by (simp only: determineTrend_table spec_TrendSignal_table simp_thms)

theorem determineTrend_meets_spec_witness:
  "determineTrend (Fin 3) (Fin 80) \<lparr> macdLine = Fin 1, signalLine = Some (Fin 0), histogram = Fin 1 \<rparr>
     = ''Overbought, Bullish MACD Crossover'' \<and>
   determineTrend NaN (Fin 50) \<lparr> macdLine = Fin 0, signalLine = Some (Fin 0), histogram = Fin 0 \<rparr>
     = ''Neutral'' \<and>
   determineTrend (Fin 3) (Fin 10) \<lparr> macdLine = Fin (- 1), signalLine = Some (Fin 0), histogram = Fin (- 1) \<rparr>
     = ''Oversold, Bearish MACD Crossover''"
  using determineTrend_meets_spec
      [of "Fin 3" "Fin 80" "\<lparr> macdLine = Fin 1, signalLine = Some (Fin 0), histogram = Fin 1 \<rparr>" NaN]
    determineTrend_meets_spec
      [of NaN "Fin 50" "\<lparr> macdLine = Fin 0, signalLine = Some (Fin 0), histogram = Fin 0 \<rparr>" NaN]
    determineTrend_meets_spec
      [of "Fin 3" "Fin 10" "\<lparr> macdLine = Fin (- 1), signalLine = Some (Fin 0), histogram = Fin (- 1) \<rparr>" NaN]
  by (simp add: spec_TrendSignal_def spec_rsi_label_def spec_macd_label_def js_gt_def)

section \<open>Properties of the named windows\<close>

lemma TIME_PERIODS_other:
  "k \<notin> {''1d'', ''7d'', ''30d'', ''1y''} \<Longrightarrow> map_of TIME_PERIODS k = None"
  by (auto simp: TIME_PERIODS_def)

lemma TIME_PERIODS_values:
  "get_property TIME_PERIODS ''1d'' = OwnValue 86400000"
  "get_property TIME_PERIODS ''7d'' = OwnValue 604800000"
  "get_property TIME_PERIODS ''30d'' = OwnValue 2592000000"
  "get_property TIME_PERIODS ''1y'' = OwnValue 31536000000"
  by (simp_all add: TIME_PERIODS_def get_property_def)

lemma get_property_other:
  assumes "k \<notin> {''1d'', ''7d'', ''30d'', ''1y''}"
  shows "get_property TIME_PERIODS k =
           (if k \<in> set Object_prototype_keys then InheritedMember k else NotDefined)"
  by (simp add: get_property_def TIME_PERIODS_other[OF assms])

lemma window_from_other:
  assumes "k \<notin> {''1d'', ''7d'', ''30d'', ''1y''}"
  shows "window_from TIME_PERIODS now k = NaN"
  by (simp add: window_from_def get_property_other[OF assms] js_sub_NaN_right)

lemma context_TIME_PERIODS_same: "context_TIME_PERIODS = TIME_PERIODS"
  by (simp add: context_TIME_PERIODS_def TIME_PERIODS_def)

text \<open>
  C9, as stated: every window name other than the four of the table reads
  \<^verbatim>\<open>undefined\<close>. The name \<^verbatim>\<open>constructor\<close> is none of the four, and
  \<^verbatim>\<open>TIME_PERIODS["constructor"]\<close> is the member that the object literal inherits
  from \<^verbatim>\<open>Object.prototype\<close>, a defined value.
\<close>

theorem TIME_PERIODS_inherited_counterexample:
  "''constructor'' \<notin> {''1d'', ''7d'', ''30d'', ''1y''} \<and>
   get_property TIME_PERIODS ''constructor'' = InheritedMember ''constructor'' \<and>
   get_property TIME_PERIODS ''constructor'' \<noteq> NotDefined"
  by (simp add: get_property_def TIME_PERIODS_def Object_prototype_keys_def)

text \<open>
  C9, amended. The table of named windows has exactly four entries of its own:
  \<^verbatim>\<open>1d\<close> is 86,400,000 ms, \<^verbatim>\<open>7d\<close> is 604,800,000 ms, \<^verbatim>\<open>30d\<close> is
  2,592,000,000 ms and \<^verbatim>\<open>1y\<close> is 31,536,000,000 ms. Every other name reads
  \<^verbatim>\<open>undefined\<close>, unless it names a member of \<^verbatim>\<open>Object.prototype\<close>, in which
  case it reads that inherited member, which is not a duration. For every name other
  than the four the start of the window computed from the read is \<^verbatim>\<open>NaN\<close>. The
  table written in the registry is the same.
\<close>

theorem TIME_PERIODS_exact:
  "get_property TIME_PERIODS ''1d'' = OwnValue 86400000 \<and>
   get_property TIME_PERIODS ''7d'' = OwnValue 604800000 \<and>
   get_property TIME_PERIODS ''30d'' = OwnValue 2592000000 \<and>
   get_property TIME_PERIODS ''1y'' = OwnValue 31536000000 \<and>
   (\<forall>k. k \<notin> {''1d'', ''7d'', ''30d'', ''1y''} \<longrightarrow>
        get_property TIME_PERIODS k =
          (if k \<in> set Object_prototype_keys then InheritedMember k else NotDefined) \<and>
        window_from TIME_PERIODS now k = NaN) \<and>
   context_TIME_PERIODS = TIME_PERIODS"
proof (intro conjI allI impI)
  fix k :: string
  assume k: "k \<notin> {''1d'', ''7d'', ''30d'', ''1y''}"
  then show "get_property TIME_PERIODS k =
          (if k \<in> set Object_prototype_keys then InheritedMember k else NotDefined)"
    by (rule get_property_other)
  from k show "window_from TIME_PERIODS now k = NaN" by (rule window_from_other)
qed (simp_all only: TIME_PERIODS_values context_TIME_PERIODS_same)

theorem TIME_PERIODS_exact_witness:
  "get_property TIME_PERIODS ''2w'' = NotDefined \<and>
   window_from TIME_PERIODS 1700000000000 ''2w'' = NaN \<and>
   get_property TIME_PERIODS ''toString'' = InheritedMember ''toString'' \<and>
   window_from TIME_PERIODS 1700000000000 ''toString'' = NaN \<and>
   get_property TIME_PERIODS ''7d'' = OwnValue 604800000"
proof -
  note t = TIME_PERIODS_exact [of 1700000000000]
  note u = t [THEN conjunct2, THEN conjunct2, THEN conjunct2, THEN conjunct2, THEN conjunct1,
      rule_format]
  have k: "''2w'' \<notin> {''1d'', ''7d'', ''30d'', ''1y''}" by simp
  have k': "''toString'' \<notin> {''1d'', ''7d'', ''30d'', ''1y''}" by simp
  have p: "''2w'' \<notin> set Object_prototype_keys" "''toString'' \<in> set Object_prototype_keys"
    by (simp_all add: Object_prototype_keys_def)
  note b = t [THEN conjunct2, THEN conjunct1]
  from u [OF k] u [OF k'] b show ?thesis by (simp only: p if_True if_False simp_thms)
qed

section \<open>Properties of the formatting capabilities\<close>

lemma template_currency_absent:
  "opt_prop data f = JUndefined \<Longrightarrow> template_currency fx data f = Inr ''$N/A''"
  by (simp add: template_currency_def opt_toFixed_def and_then_def)

lemma template_percent_absent:
  "opt_prop data f = JUndefined \<Longrightarrow> template_percent fx data f = Inr ''N/A%''"
  by (simp add: template_percent_def opt_toFixed_def and_then_def)

lemma defined_currency_absent:
  "opt_prop data f = JUndefined \<Longrightarrow> defined_currency fx data f = Inr ''N/A''"
  by (simp add: defined_currency_def)

lemma truthy_currency_absent:
  "opt_prop data f = JUndefined \<Longrightarrow> truthy_currency fx data f = Inr ''N/A''"
  by (simp add: truthy_currency_def)

lemma truthy_percent_absent:
  "opt_prop data f = JUndefined \<Longrightarrow> truthy_percent fx data f = Inr ''N/A''"
  by (simp add: truthy_percent_def)

lemmas module_template_formatters =
  marketCapDiluted_def liquidity_def offChainVolume_def volume7d_def ath_def atl_def
  volumeChange24h_def priceChange24h_def priceChange1h_def priceChange7d_def
  priceChange1m_def priceChange30d_def priceChange1y_def

lemmas sibling_formatters =
  price_def volume_def marketCap_def liquidityChange24h_def
  context_price_def context_volume_def context_marketCap_def context_marketCapDiluted_def
  context_liquidity_def context_priceChange24h_def context_priceChange1h_def
  context_priceChange7d_def context_priceChange30d_def context_liquidityChange24h_def
  context_offChainVolume_def context_volume7d_def context_volumeChange24h_def
  context_priceChange1m_def context_priceChange1y_def context_ath_def context_atl_def

text \<open>
  What the claim asks for is what the sibling paths do: the formatters that test the
  field before they format it, which are \<^verbatim>\<open>price\<close>, \<^verbatim>\<open>volume\<close>,
  \<^verbatim>\<open>marketCap\<close> and \<^verbatim>\<open>liquidityChange24h\<close> of the module and every formatter of
  the registry, return the bare sentinel when the field is absent.
\<close>

lemma testing_formatters_absent_field:
  assumes "market_data_of (coins_json pr) pr token = Inr data"
  shows "(opt_prop data ''price'' = JUndefined \<longrightarrow> price pr token = Inr ''N/A'') \<and>
         (opt_prop data ''volume'' = JUndefined \<longrightarrow> volume pr token = Inr ''N/A'') \<and>
         (opt_prop data ''market_cap'' = JUndefined \<longrightarrow> marketCap pr token = Inr ''N/A'') \<and>
         (opt_prop data ''liquidity_change_24h'' = JUndefined \<longrightarrow>
            liquidityChange24h pr token = Inr ''N/A'')"
  unfolding sibling_formatters and_then_def assms
  by (simp add: defined_currency_absent truthy_percent_absent)

lemma registry_formatters_absent_field:
  assumes "market_data_of context_coins pr token = Inr data"
  shows "(opt_prop data ''price'' = JUndefined \<longrightarrow> context_price pr token = Inr ''N/A'') \<and>
         (opt_prop data ''volume'' = JUndefined \<longrightarrow> context_volume pr token = Inr ''N/A'') \<and>
         (opt_prop data ''market_cap'' = JUndefined \<longrightarrow> context_marketCap pr token = Inr ''N/A'') \<and>
         (opt_prop data ''market_cap_diluted'' = JUndefined \<longrightarrow>
            context_marketCapDiluted pr token = Inr ''N/A'') \<and>
         (opt_prop data ''liquidity'' = JUndefined \<longrightarrow> context_liquidity pr token = Inr ''N/A'') \<and>
         (opt_prop data ''liquidity_change_24h'' = JUndefined \<longrightarrow>
            context_liquidityChange24h pr token = Inr ''N/A'') \<and>
         (opt_prop data ''off_chain_volume'' = JUndefined \<longrightarrow>
            context_offChainVolume pr token = Inr ''N/A'') \<and>
         (opt_prop data ''volume_7d'' = JUndefined \<longrightarrow> context_volume7d pr token = Inr ''N/A'') \<and>
         (opt_prop data ''volume_change_24h'' = JUndefined \<longrightarrow>
            context_volumeChange24h pr token = Inr ''N/A'') \<and>
         (opt_prop data ''price_change_24h'' = JUndefined \<longrightarrow>
            context_priceChange24h pr token = Inr ''N/A'') \<and>
         (opt_prop data ''price_change_1h'' = JUndefined \<longrightarrow>
            context_priceChange1h pr token = Inr ''N/A'') \<and>
         (opt_prop data ''price_change_7d'' = JUndefined \<longrightarrow>
            context_priceChange7d pr token = Inr ''N/A'') \<and>
         (opt_prop data ''price_change_1m'' = JUndefined \<longrightarrow>
            context_priceChange1m pr token = Inr ''N/A'' \<and>
            context_priceChange30d pr token = Inr ''N/A'') \<and>
         (opt_prop data ''price_change_1y'' = JUndefined \<longrightarrow>
            context_priceChange1y pr token = Inr ''N/A'') \<and>
         (opt_prop data ''ath'' = JUndefined \<longrightarrow> context_ath pr token = Inr ''N/A'') \<and>
         (opt_prop data ''atl'' = JUndefined \<longrightarrow> context_atl pr token = Inr ''N/A'')"
  unfolding sibling_formatters and_then_def assms
  by (simp add: truthy_currency_absent truthy_percent_absent)

lemma provider_without_fields_data:
  "market_data_of (coins_json provider_without_fields) provider_without_fields token
     = Inr (Some Map.empty)"
  by (simp add: market_data_of_def provider_without_fields_def)

text \<open>
  C3 asks that every formatting capability return exactly \<^verbatim>\<open>N/A\<close>, with no
  \<^verbatim>\<open>$\<close> before it and no \<^verbatim>\<open>%\<close> after it, when the field is absent. The
  formatters that the module writes as one template around \<^verbatim>\<open>|| "N/A"\<close> do not:
  whenever the provider's answer lacks the field, the currency ones return
  \<^verbatim>\<open>$N/A\<close> and the percentage ones return \<^verbatim>\<open>N/A%\<close>.
\<close>

theorem module_template_formatters_absent_field:
  assumes "market_data_of (coins_json pr) pr token = Inr data"
  shows "(opt_prop data ''market_cap_diluted'' = JUndefined \<longrightarrow> marketCapDiluted pr token = Inr ''$N/A'') \<and>
         (opt_prop data ''liquidity'' = JUndefined \<longrightarrow> liquidity pr token = Inr ''$N/A'') \<and>
         (opt_prop data ''off_chain_volume'' = JUndefined \<longrightarrow> offChainVolume pr token = Inr ''$N/A'') \<and>
         (opt_prop data ''volume_7d'' = JUndefined \<longrightarrow> volume7d pr token = Inr ''$N/A'') \<and>
         (opt_prop data ''ath'' = JUndefined \<longrightarrow> ath pr token = Inr ''$N/A'') \<and>
         (opt_prop data ''atl'' = JUndefined \<longrightarrow> atl pr token = Inr ''$N/A'') \<and>
         (opt_prop data ''volume_change_24h'' = JUndefined \<longrightarrow> volumeChange24h pr token = Inr ''N/A%'') \<and>
         (opt_prop data ''price_change_24h'' = JUndefined \<longrightarrow> priceChange24h pr token = Inr ''N/A%'') \<and>
         (opt_prop data ''price_change_1h'' = JUndefined \<longrightarrow> priceChange1h pr token = Inr ''N/A%'') \<and>
         (opt_prop data ''price_change_7d'' = JUndefined \<longrightarrow> priceChange7d pr token = Inr ''N/A%'') \<and>
         (opt_prop data ''price_change_1m'' = JUndefined \<longrightarrow>
            priceChange1m pr token = Inr ''N/A%'' \<and> priceChange30d pr token = Inr ''N/A%'') \<and>
         (opt_prop data ''price_change_1y'' = JUndefined \<longrightarrow> priceChange1y pr token = Inr ''N/A%'')"
  unfolding module_template_formatters and_then_def assms
  by (simp add: template_currency_absent template_percent_absent)

theorem module_template_formatters_absent_field_witness:
  "marketCapDiluted provider_without_fields ''bitcoin'' = Inr ''$N/A'' \<and>
   liquidity provider_without_fields ''bitcoin'' = Inr ''$N/A'' \<and>
   ath provider_without_fields ''bitcoin'' = Inr ''$N/A'' \<and>
   volumeChange24h provider_without_fields ''bitcoin'' = Inr ''N/A%'' \<and>
   priceChange24h provider_without_fields ''bitcoin'' = Inr ''N/A%''"
  using module_template_formatters_absent_field [OF provider_without_fields_data, of "''bitcoin''"]
  by (simp add: opt_prop_def)

section \<open>Properties of the execution engine\<close>

subsection \<open>Normalizing\<close>

lemma replace_first_absent:
  "\<not> sublist marker s \<Longrightarrow> replace_first marker s = s"
proof (induction s)
  case Nil
  show ?case by simp
next
  case (Cons c cs)
  from Cons.prems have "\<not> prefix marker (c # cs)" and "\<not> sublist marker cs"
    by (auto simp: sublist_Cons_right)
  with Cons.IH show ?case by simp
qed

lemma no_backtick_no_fence:
  assumes "CHR 0x60 \<notin> set s" and "CHR 0x60 \<in> set marker"
  shows "\<not> sublist marker s"
  using assms set_mono_sublist by fastforce



lemma trim_id:
  assumes "s \<noteq> []" and "\<not> is_space (hd s)" and "\<not> is_space (last s)"
  shows "trim s = s"
proof -
  from assms(1,2) have a: "dropWhile is_space s = s" by (cases s) simp_all
  from assms(1,3) have "dropWhile is_space (rev s) = rev s"
    by (cases "rev s") (simp_all add: last_rev[symmetric] hd_rev)
  with a show ?thesis by (simp add: trim_def)
qed

lemma cleanCode_unfenced:
  assumes "\<not> sublist ''```'' code"
  shows "cleanCode code = trim code"
proof -
  have "sublist ''```'' ''```javascript''" by (rule prefix_imp_sublist) simp
  with assms have "\<not> sublist ''```javascript'' code"
    using sublist_order.order_trans by blast
  with assms show ?thesis by (simp add: cleanCode_def replace_first_absent)
qed












subsection \<open>The fragment host on the engine's wrapper\<close>

lemma unwrap_wrap: "unwrap_body (wrap_body s) = Some s"
  by (simp add: unwrap_body_def wrap_body_def suffix_def)

lemma parse_return_statement:
  "x \<noteq> [] \<Longrightarrow> parse_return (''return '' @ x @ '';'') = parse_expr x"
  by (simp add: parse_return_def butlast_append)


lemma context_fst: "map fst context = context_keys"
  by (simp add: context_def comp_def)


lemma ident_part_not_backtick: "ident_part c \<Longrightarrow> c \<noteq> CHR 0x60"
  by (auto simp: ident_part_def ident_start_def)

lemma identifier_text:
  assumes "is_identifier x"
  shows "x \<noteq> []" and "CHR 0x60 \<notin> set x"
proof -
  from assms obtain c cs where x: "x = c # cs" and c: "ident_start c" and cs: "list_all ident_part cs"
    by (auto simp: is_identifier_def split: list.splits)
  show "x \<noteq> []" by (simp add: x)
  from c have "ident_part c" by (simp add: ident_part_def)
  with cs have "\<forall>d \<in> set x. ident_part d" by (simp add: x list_all_iff)
  then show "CHR 0x60 \<notin> set x" using ident_part_not_backtick by blast
qed

lemma cleanCode_return_identifier:
  assumes "is_identifier x"
  shows "cleanCode (''return '' @ x @ '';'') = ''return '' @ x @ '';''"
proof -
  from identifier_text(2)[OF assms] have "CHR 0x60 \<notin> set (''return '' @ x @ '';'')" by simp
  then have "\<not> sublist ''```'' (''return '' @ x @ '';'')"
    by (rule no_backtick_no_fence) simp
  then have "cleanCode (''return '' @ x @ '';'') = trim (''return '' @ x @ '';'')"
    by (rule cleanCode_unfenced)
  also have "\<dots> = ''return '' @ x @ '';''"
    by (rule trim_id) (simp_all add: is_space_def)
  finally show ?thesis .
qed

lemma fragment_parse_return_identifier:
  assumes "is_identifier x"
  shows "fragment_parse (wrap_body (cleanCode (''return '' @ x @ '';''))) = Inr (Var x)"
  unfolding cleanCode_return_identifier[OF assms] fragment_parse_def unwrap_wrap
  using assms identifier_text(1)[OF assms]
  by (simp add: parse_return_statement parse_expr_def del: append.simps)


subsection \<open>The outcome of executeCode\<close>

lemma executeCode_outcome:
  "executeCode h code w =
     (case compile h context_keys (wrap_body (cleanCode code)) of
        Inl e \<Rightarrow> on_failure h e w
      | Inr fn \<Rightarrow>
          (case fn (map JCap context_keys) w of
             (Inr v, w') \<Rightarrow> (Returned v, w')
           | (Inl e, w') \<Rightarrow> on_failure h e w'))"
proof -
  have "map snd context = map JCap context_keys"
    by (simp add: context_def comp_def)
  then show ?thesis
    by (simp add: executeCode_def context_fst split: sum.splits prod.splits)
qed

lemma on_failure_thrown:
  "\<exists>t. on_failure h e w = (Thrown t, console_error h ''Error executing code:'' e w) \<and>
       (\<forall>n m c. e = JError n m c \<longrightarrow> t = JError ''Error'' (''Code execution failed: '' @ m) None)"
  by (cases e) (simp_all add: on_failure_def Let_def del: append.simps)

lemma executeCode_failure:
  assumes "compile h context_keys (wrap_body (cleanCode code)) = Inl e \<and> w' = w \<or>
           (\<exists>fn. compile h context_keys (wrap_body (cleanCode code)) = Inr fn \<and>
                 fn (map JCap context_keys) w = (Inl e, w'))"
  shows "\<exists>t. executeCode h code w = (Thrown t, console_error h ''Error executing code:'' e w') \<and>
             (\<forall>n m c. e = JError n m c \<longrightarrow> t = JError ''Error'' (''Code execution failed: '' @ m) None)"
  using assms on_failure_thrown[of h e w'] unfolding executeCode_outcome
  by (auto simp del: append.simps)

lemma executeCode_success:
  assumes "compile h context_keys (wrap_body (cleanCode code)) = Inr fn"
    and "fn (map JCap context_keys) w = (Inr v, w')"
  shows "executeCode h code w = (Returned v, w')"
  using assms unfolding executeCode_outcome by simp









lemma nope_identifier: "is_identifier ''nope''"
  by code_simp



subsection \<open>Failures\<close>

text \<open>
  C1, as stated: an error of the executed code is returned to the caller as a failure
  record and is never thrown past \<^verbatim>\<open>executeCode\<close>. It is thrown: the code
  \<^verbatim>\<open>return nope;\<close> compiles, fails with a \<^verbatim>\<open>ReferenceError\<close> when it runs, and
  the promise of \<^verbatim>\<open>executeCode\<close> is rejected with a new \<^verbatim>\<open>Error\<close>.
\<close>

theorem executeCode_thrown_counterexample:
  "fst (executeCode (fragment_host standard_globals) ''return nope;'' []) =
     Thrown (JError ''Error'' ''Code execution failed: nope is not defined'' None)"
  by code_simp

text \<open>
  C1, amended. For every host, code string and world: an error thrown while the code is
  compiled, or while the compiled function runs, is caught by \<^verbatim>\<open>executeCode\<close>,
  logged once with \<^verbatim>\<open>console.error\<close>, and thrown again to the caller; when the
  value caught is an error object, what is thrown is a new \<^verbatim>\<open>Error\<close> whose message
  is \<^verbatim>\<open>Code execution failed: \<close> followed by the message caught, with no cause
  attached. When nothing is thrown the value of the function is returned. The code is
  compiled once and the function is called once: the world after \<^verbatim>\<open>executeCode\<close>
  is the world after that one call, plus the line logged on failure.
\<close>

theorem executeCode_failure_is_rethrown:
  "(compile h context_keys (wrap_body (cleanCode code)) = Inl e \<longrightarrow>
      (\<exists>t. executeCode h code w = (Thrown t, console_error h ''Error executing code:'' e w) \<and>
           (\<forall>n m c. e = JError n m c \<longrightarrow>
                t = JError ''Error'' (''Code execution failed: '' @ m) None))) \<and>
   (compile h context_keys (wrap_body (cleanCode code)) = Inr fn \<and>
    fn (map JCap context_keys) w = (Inl e, w') \<longrightarrow>
      (\<exists>t. executeCode h code w = (Thrown t, console_error h ''Error executing code:'' e w') \<and>
           (\<forall>n m c. e = JError n m c \<longrightarrow>
                t = JError ''Error'' (''Code execution failed: '' @ m) None))) \<and>
   (compile h context_keys (wrap_body (cleanCode code)) = Inr fn \<and>
    fn (map JCap context_keys) w = (Inr v, w') \<longrightarrow>
      executeCode h code w = (Returned v, w'))"
proof (intro conjI impI)
  assume "compile h context_keys (wrap_body (cleanCode code)) = Inl e"
  then show "\<exists>t. executeCode h code w = (Thrown t, console_error h ''Error executing code:'' e w) \<and>
           (\<forall>n m c. e = JError n m c \<longrightarrow>
                t = JError ''Error'' (''Code execution failed: '' @ m) None)"
    by (intro executeCode_failure) simp
next
  assume "compile h context_keys (wrap_body (cleanCode code)) = Inr fn \<and>
    fn (map JCap context_keys) w = (Inl e, w')"
  then show "\<exists>t. executeCode h code w = (Thrown t, console_error h ''Error executing code:'' e w') \<and>
           (\<forall>n m c. e = JError n m c \<longrightarrow>
                t = JError ''Error'' (''Code execution failed: '' @ m) None)"
    by (intro executeCode_failure) simp
next
  assume "compile h context_keys (wrap_body (cleanCode code)) = Inr fn \<and>
    fn (map JCap context_keys) w = (Inr v, w')"
  then show "executeCode h code w = (Returned v, w')"
    by (intro executeCode_success[of h code fn]) simp_all
qed

theorem executeCode_failure_is_rethrown_witness:
  "executeCode (fragment_host standard_globals) ''return nope;'' [] =
     (Thrown (JError ''Error'' ''Code execution failed: nope is not defined'' None),
      [(''Error in executed code:'', JError ''ReferenceError'' ''nope is not defined'' None),
       (''Error executing code:'', JError ''ReferenceError'' ''nope is not defined'' None)])"
proof -
  let ?h = "fragment_host standard_globals"
  let ?fn = "expression_callable no_operators log_line standard_globals context_keys (Var ''nope'')"
  let ?e = "JError ''ReferenceError'' ''nope is not defined'' None"
  let ?w' = "[(''Error in executed code:'', ?e)]"
  have c: "compile ?h context_keys (wrap_body (cleanCode ''return nope;'')) = Inr ?fn"
    using fragment_parse_return_identifier[OF nope_identifier]
    by (simp add: fragment_host_def expression_host_def)
  have r: "?fn (map JCap context_keys) [] = (Inl ?e, ?w')"
    by code_simp
  from executeCode_failure_is_rethrown [of ?h "''return nope;''" ?e "[]" ?fn ?w'] c r
  obtain t where t: "executeCode ?h ''return nope;'' [] =
        (Thrown t, console_error ?h ''Error executing code:'' ?e ?w')"
    and m: "\<forall>n m c. ?e = JError n m c \<longrightarrow> t = JError ''Error'' (''Code execution failed: '' @ m) None"
    by meson
  from m have "t = JError ''Error'' (''Code execution failed: '' @ ''nope is not defined'') None"
    by simp
  with t show ?thesis by (simp add: fragment_host_def expression_host_def log_line_def)
qed

subsection \<open>Names outside the registry\<close>




subsection \<open>Fenced code\<close>




end
